theory Spec2Isabelle
  imports Complex_Main
begin

section \<open>Numbers\<close>

text \<open>
  A Python float is an IEEE 754 binary64 value: \<open>Finite x\<close> with \<open>x\<close> the number it
  denotes, the two infinities, or a NaN. The two zeros are not told apart (no operation of
  the core depends on the sign of a zero). Arithmetic is exact arithmetic
  followed by rounding to the nearest binary64 value, ties to the even significand, as
  the hardware does.
\<close>

datatype py_float = Finite real | PosInf | NegInf | NaN

text \<open>Rounding to the nearest integer, an exact half to the even neighbour.\<close>

definition round_half_even :: "real \<Rightarrow> int" where
  "round_half_even y =
     (let f = \<lfloor>y\<rfloor>;
          d = y - of_int f
      in if d < 1 / 2 then f
         else if d > 1 / 2 then f + 1
         else if even f then f
         else f + 1)"

text \<open>The number of binary digits of a positive integer.\<close>

function bit_length :: "int \<Rightarrow> int" where
  "bit_length n = (if n \<le> 0 then 0 else 1 + bit_length (n div 2))"
  by pat_completeness auto
termination
  by (relation "measure nat") auto

declare bit_length.simps [simp del]

text \<open>For positive \<open>x\<close>, the integer \<open>e\<close> with \<open>2 ^ e \<le> x < 2 ^ (e + 1)\<close>.\<close>

definition floor_log2 :: "real \<Rightarrow> int" where
  "floor_log2 x =
     (if 1 \<le> x then bit_length \<lfloor>x\<rfloor> - 1
      else - bit_length (\<lceil>1 / x\<rceil> - 1))"

text \<open>Powers of two with an integer exponent.\<close>

definition pow2 :: "int \<Rightarrow> real" where
  "pow2 e = (if 0 \<le> e then 2 ^ nat e else 1 / 2 ^ nat (- e))"

text \<open>
  The exponent of the last bit that binary64 keeps of a positive \<open>x\<close>: 53
  significant bits, and no bit below \<open>2 ^ -1074\<close> (the subnormal range).
\<close>

definition binade_exp :: "real \<Rightarrow> int" where
  "binade_exp x = max (floor_log2 x - 52) (- 1074)"

text \<open>The nearest binary64 value when the exponent is not bounded above.\<close>

definition round_nearest :: "real \<Rightarrow> real" where
  "round_nearest x =
     (if x = 0 then 0
      else sgn x * (of_int (round_half_even (\<bar>x\<bar> / pow2 (binade_exp \<bar>x\<bar>)))
                    * pow2 (binade_exp \<bar>x\<bar>)))"

text \<open>Rounding to binary64: a result of magnitude \<open>2 ^ 1024\<close> or more overflows to an
  infinity.\<close>

definition fl :: "real \<Rightarrow> py_float" where
  "fl x =
     (let r = round_nearest x
      in if 2 ^ 1024 \<le> r then PosInf
         else if r \<le> - (2 ^ 1024) then NegInf
         else Finite r)"

fun fneg :: "py_float \<Rightarrow> py_float" where
  "fneg (Finite x) = Finite (- x)"
| "fneg PosInf = NegInf"
| "fneg NegInf = PosInf"
| "fneg NaN = NaN"

fun fabs :: "py_float \<Rightarrow> py_float" where
  "fabs (Finite x) = Finite \<bar>x\<bar>"
| "fabs PosInf = PosInf"
| "fabs NegInf = PosInf"
| "fabs NaN = NaN"

fun fadd :: "py_float \<Rightarrow> py_float \<Rightarrow> py_float" where
  "fadd (Finite x) (Finite y) = fl (x + y)"
| "fadd NaN b = NaN"
| "fadd a NaN = NaN"
| "fadd PosInf NegInf = NaN"
| "fadd NegInf PosInf = NaN"
| "fadd PosInf b = PosInf"
| "fadd a PosInf = PosInf"
| "fadd NegInf b = NegInf"
| "fadd a NegInf = NegInf"

definition fsub :: "py_float \<Rightarrow> py_float \<Rightarrow> py_float" where
  "fsub a b = fadd a (fneg b)"

text \<open>The sign of a float: 1, -1, or 0 for a zero or a NaN.\<close>

fun fsign :: "py_float \<Rightarrow> int" where
  "fsign (Finite x) = (if 0 < x then 1 else if x < 0 then - 1 else 0)"
| "fsign PosInf = 1"
| "fsign NegInf = - 1"
| "fsign NaN = 0"

definition signed_inf :: "int \<Rightarrow> py_float" where
  "signed_inf s = (if 0 < s then PosInf else if s < 0 then NegInf else NaN)"

fun fmul :: "py_float \<Rightarrow> py_float \<Rightarrow> py_float" where
  "fmul (Finite x) (Finite y) = fl (x * y)"
| "fmul NaN b = NaN"
| "fmul a NaN = NaN"
| "fmul a b = signed_inf (fsign a * fsign b)"

text \<open>IEEE division by a divisor that is not zero; Python raises before dividing by a
  zero (see \<open>float_truediv\<close>).\<close>

fun fdiv :: "py_float \<Rightarrow> py_float \<Rightarrow> py_float" where
  "fdiv (Finite x) (Finite y) = fl (x / y)"
| "fdiv NaN b = NaN"
| "fdiv a NaN = NaN"
| "fdiv (Finite x) b = Finite 0"
| "fdiv a (Finite y) = signed_inf (fsign a * fsign (Finite y))"
| "fdiv a b = NaN"

text \<open>Comparisons: every comparison with a NaN is false.\<close>

fun flt :: "py_float \<Rightarrow> py_float \<Rightarrow> bool" where
  "flt (Finite x) (Finite y) = (x < y)"
| "flt NaN b = False"
| "flt a NaN = False"
| "flt a NegInf = False"
| "flt PosInf b = False"
| "flt a PosInf = True"
| "flt NegInf b = True"

definition fgt :: "py_float \<Rightarrow> py_float \<Rightarrow> bool" where
  "fgt a b = flt b a"

definition feq :: "py_float \<Rightarrow> py_float \<Rightarrow> bool" where
  "feq a b = (a \<noteq> NaN \<and> a = b)"

definition fge :: "py_float \<Rightarrow> py_float \<Rightarrow> bool" where
  "fge a b = (flt b a \<or> feq a b)"

text \<open>\<^verbatim>\<open>max(a, b)\<close> keeps \<open>a\<close> unless \<open>b > a\<close>.\<close>

definition py_max :: "py_float \<Rightarrow> py_float \<Rightarrow> py_float" where
  "py_max a b = (if fgt b a then b else a)"

text \<open>
  \<^verbatim>\<open>round(x, n)\<close> on a float: the exact value of \<open>x\<close> is rounded to \<open>n\<close> decimals, an exact
  tie to the even digit, and the decimal result is converted back to the nearest float.
  Infinities and NaN are returned as they are.
\<close>

fun py_round :: "py_float \<Rightarrow> nat \<Rightarrow> py_float" where
  "py_round (Finite x) n = fl (of_int (round_half_even (x * 10 ^ n)) / 10 ^ n)"
| "py_round a n = a"

text \<open>
  Exceptions of the scoring path: the \<^verbatim>\<open>TypeError\<close> of \<^verbatim>\<open>value * weight\<close> when the value
  is not a number, the \<^verbatim>\<open>OverflowError\<close> of converting or dividing Python integers
  whose result is too large for a float, and the \<^verbatim>\<open>ZeroDivisionError\<close> of \<^verbatim>\<open>/\<close>.
\<close>

datatype py_error = TypeError | OverflowError | ZeroDivisionError

text \<open>Sequencing: an exception of the first computation skips the second.\<close>

definition then_do :: "py_error + 'a \<Rightarrow> ('a \<Rightarrow> py_error + 'b) \<Rightarrow> py_error + 'b" where
  "then_do r f = (case r of Inl e \<Rightarrow> Inl e | Inr v \<Rightarrow> f v)"

text \<open>
  A number of an episode is a Python \<^verbatim>\<open>int\<close>, of any size, or a \<^verbatim>\<open>float\<close>. Where the two
  meet, the integer is converted to the nearest float first; that conversion, and the
  true division of two integers, raise \<^verbatim>\<open>OverflowError\<close> when the rounded result is
  not finite.
\<close>

datatype py_num = PyInt int | PyFloat py_float

definition finite_or_overflow :: "py_float \<Rightarrow> py_error + py_float" where
  "finite_or_overflow v =
     (case v of PosInf \<Rightarrow> Inl OverflowError | NegInf \<Rightarrow> Inl OverflowError | _ \<Rightarrow> Inr v)"

fun to_float :: "py_num \<Rightarrow> py_error + py_float" where
  "to_float (PyFloat f) = Inr f"
| "to_float (PyInt i) = finite_or_overflow (fl (of_int i))"

text \<open>\<^verbatim>\<open>x == 0\<close>.\<close>

fun num_is_zero :: "py_num \<Rightarrow> bool" where
  "num_is_zero (PyInt i) = (i = 0)"
| "num_is_zero (PyFloat f) = feq f (Finite 0)"

text \<open>\<^verbatim>\<open>a - b\<close>: exact on two integers, a float subtraction otherwise.\<close>

fun num_sub :: "py_num \<Rightarrow> py_num \<Rightarrow> py_error + py_num" where
  "num_sub (PyInt i) (PyInt j) = Inr (PyInt (i - j))"
| "num_sub a b =
     then_do (to_float a) (\<lambda>x. then_do (to_float b) (\<lambda>y. Inr (PyFloat (fsub x y))))"

text \<open>\<^verbatim>\<open>a / b\<close>: on two integers the exact quotient rounded once; a float division
  otherwise.\<close>

fun num_truediv :: "py_num \<Rightarrow> py_num \<Rightarrow> py_error + py_float" where
  "num_truediv (PyInt i) (PyInt j) =
     (if j = 0 then Inl ZeroDivisionError
      else finite_or_overflow (fl (of_int i / of_int j)))"
| "num_truediv a b =
     then_do (to_float a) (\<lambda>x. then_do (to_float b) (\<lambda>y.
       if y = Finite 0 then Inl ZeroDivisionError else Inr (fdiv x y)))"

text \<open>
  The true division of two list lengths, at the places where the code has checked that
  the divisor is positive. A length is far below \<open>2 ^ 1024\<close>, so the quotient is the
  exact ratio rounded once, and no exception arises.
\<close>

definition len_div :: "nat \<Rightarrow> nat \<Rightarrow> py_float" where
  "len_div a b = fl (real a / real b)"

section \<open>Data model (pkg/models/eval.py)\<close>

datatype EvalStatus = PENDING | RUNNING | COMPLETED | FAILED

datatype ScoreDimension = CORRECTNESS | COST_DELTA | LATENCY_DELTA | TOOL_MATCH | SAFETY

datatype RegressionSeverity = INFO | WARNING | CRITICAL

text \<open>
  \<^verbatim>\<open>EvalConfig\<close>: the weight map and the two thresholds that the core reads, with
  the name and the episode limit; the store URL, the filters and the metadata bag are
  left out. \<^verbatim>\<open>score_weights\<close> is a Python dict, iterated in insertion order, so it is
  kept as an association list. A decimal literal such as \<^verbatim>\<open>0.4\<close> is the float nearest
  to it, \<open>fl 0.4\<close>.
\<close>

record EvalConfig =
  name :: string
  max_episodes :: int
  score_weights :: "(string \<times> py_float) list"
  cost_threshold_pct :: py_float
  latency_threshold_pct :: py_float

definition default_score_weights :: "(string \<times> py_float) list" where
  "default_score_weights =
     [(''correctness'', fl 0.4), (''cost_delta'', fl 0.2), (''latency_delta'', fl 0.1),
      (''tool_match'', fl 0.2), (''safety'', fl 0.1)]"

definition EvalConfig_default :: EvalConfig where
  "EvalConfig_default =
     \<lparr>name = ''default'', max_episodes = 100, score_weights = default_score_weights,
      cost_threshold_pct = Finite 20, latency_threshold_pct = Finite 30\<rparr>"

text \<open>\<^verbatim>\<open>ScoreCard\<close>. The \<^verbatim>\<open>details\<close> bag is never read or written by the core.\<close>

record ScoreCard =
  episode_id :: string
  agent_id :: string
  baseline_episode_id :: "string option"
  correctness :: py_float
  cost_delta :: py_float
  latency_delta :: py_float
  tool_match :: py_float
  safety :: py_float
  weighted_score :: py_float

text \<open>The constructor call \<^verbatim>\<open>ScoreCard(episode_id=.., agent_id=.., baseline_episode_id=..)\<close>
  with the declared field defaults.\<close>

definition ScoreCard_init :: "string \<Rightarrow> string \<Rightarrow> string option \<Rightarrow> ScoreCard" where
  "ScoreCard_init eid aid bid =
     \<lparr>episode_id = eid, agent_id = aid, baseline_episode_id = bid,
      correctness = Finite 0, cost_delta = Finite 0, latency_delta = Finite 0,
      tool_match = Finite 0, safety = Finite 1, weighted_score = Finite 0\<rparr>"

text \<open>
  \<^verbatim>\<open>getattr(self, dim, 0.0)\<close>. A declared field of \<^verbatim>\<open>ScoreCard\<close> yields its value. The
  class also inherits attributes from pydantic's \<^verbatim>\<open>BaseModel\<close> (methods such as
  \<^verbatim>\<open>model_dump\<close>, class-level dicts and flags); that library is not part of the
  repository, so the inherited attributes are a parameter: \<open>inherited\<close> maps the name of
  each to its value. Any other name yields the default \<open>0.0\<close>.
\<close>

datatype py_value = PyNumber py_float | PyStr string | PyNone | PyObject

definition getattr_card :: "(string \<rightharpoonup> py_value) \<Rightarrow> ScoreCard \<Rightarrow> string \<Rightarrow> py_value" where
  "getattr_card inherited self dname =
     (if dname = ''episode_id'' then PyStr (episode_id self)
      else if dname = ''agent_id'' then PyStr (agent_id self)
      else if dname = ''baseline_episode_id'' then
        (case baseline_episode_id self of None \<Rightarrow> PyNone | Some b \<Rightarrow> PyStr b)
      else if dname = ''correctness'' then PyNumber (correctness self)
      else if dname = ''cost_delta'' then PyNumber (cost_delta self)
      else if dname = ''latency_delta'' then PyNumber (latency_delta self)
      else if dname = ''tool_match'' then PyNumber (tool_match self)
      else if dname = ''safety'' then PyNumber (safety self)
      else if dname = ''weighted_score'' then PyNumber (weighted_score self)
      else if dname = ''details'' then PyObject
      else (case inherited dname of Some v \<Rightarrow> v | None \<Rightarrow> PyNumber (Finite 0)))"

text \<open>
  The loop of \<^verbatim>\<open>compute_weighted\<close> over \<^verbatim>\<open>weights.items()\<close>, with the running
  \<^verbatim>\<open>total\<close>. A value that is not a number makes \<^verbatim>\<open>value * weight\<close> raise
  \<^verbatim>\<open>TypeError\<close>.
\<close>

fun compute_weighted_loop ::
  "(string \<rightharpoonup> py_value) \<Rightarrow> ScoreCard \<Rightarrow> (string \<times> py_float) list \<Rightarrow> py_float
     \<Rightarrow> py_error + py_float" where
  "compute_weighted_loop inherited self [] tot = Inr tot"
| "compute_weighted_loop inherited self ((dname, weight) # rest) tot =
     (case getattr_card inherited self dname of
        PyNumber v \<Rightarrow>
          (let val = (if dname = ''cost_delta'' \<or> dname = ''latency_delta''
                      then py_max (Finite 0) (fsub (Finite 1) (fdiv (fabs v) (Finite 100)))
                      else v)
           in compute_weighted_loop inherited self rest (fadd tot (fmul val weight)))
      | _ \<Rightarrow> Inl TypeError)"

definition compute_weighted ::
  "(string \<rightharpoonup> py_value) \<Rightarrow> ScoreCard \<Rightarrow> (string \<times> py_float) list \<Rightarrow> py_error + ScoreCard" where
  "compute_weighted inherited self weights =
     (case compute_weighted_loop inherited self weights (Finite 0) of
        Inl e \<Rightarrow> Inl e
      | Inr tot \<Rightarrow> Inr (self\<lparr>weighted_score := py_round tot 4\<rparr>))"

text \<open>
  \<^verbatim>\<open>RegressionAlert\<close>. \<^verbatim>\<open>alert_id\<close> (a fresh uuid) and \<^verbatim>\<open>created_at\<close> (the clock) are
  left out. The message is kept as the f-string's template together with the numbers it
  formats, not as rendered text.
\<close>

datatype alert_message =
    Cost_increased py_float py_float
  | Latency_increased py_float py_float
  | Correctness_dropped py_float
  | Tool_match_dropped py_float
  | Safety_dropped py_float
  | Overall_below py_float

record RegressionAlert =
  eval_run_id :: string
  alert_episode_id :: string
  dimension :: ScoreDimension
  severity :: RegressionSeverity
  message :: alert_message
  baseline_value :: py_float
  current_value :: py_float
  delta_pct :: py_float

record EvalResult =
  result_episode_id :: string
  result_agent_id :: string
  result_status :: EvalStatus
  score_card :: "ScoreCard option"
  alerts :: "RegressionAlert list"
  error :: "string option"
  duration_ms :: int

text \<open>\<^verbatim>\<open>EvalRun\<close>, without its config, timestamps and metadata bag, which
  \<^verbatim>\<open>compute_summary\<close> does not touch.\<close>

record EvalRun =
  run_id :: string
  run_status :: EvalStatus
  results :: "EvalResult list"
  run_alerts :: "RegressionAlert list"
  total_episodes :: nat
  passed :: nat
  failed :: nat
  avg_weighted_score :: py_float

text \<open>
  \<^verbatim>\<open>compute_summary\<close>. \<^verbatim>\<open>completed\<close> holds the results that have a score card, so
  the \<open>None\<close> branch of \<open>result_weighted_score\<close> is never taken on its elements. The
  builtin \<^verbatim>\<open>sum\<close> adds the floats from left to right, starting from \<open>0\<close>; the division
  by \<^verbatim>\<open>len(completed)\<close> converts that length to a float.
\<close>

definition result_weighted_score :: "EvalResult \<Rightarrow> py_float" where
  "result_weighted_score r =
     (case score_card r of Some c \<Rightarrow> weighted_score c | None \<Rightarrow> Finite 0)"

definition py_sum :: "py_float list \<Rightarrow> py_float" where
  "py_sum xs = foldl fadd (Finite 0) xs"

definition compute_summary :: "EvalRun \<Rightarrow> EvalRun" where
  "compute_summary self =
     (let completed = filter (\<lambda>r. score_card r \<noteq> None) (results self);
          self = self\<lparr>total_episodes := length (results self)\<rparr>;
          self = self\<lparr>passed := length (filter (\<lambda>r. fge (result_weighted_score r) (fl 0.7))
                                                completed)\<rparr>;
          self = self\<lparr>failed := length (filter (\<lambda>r. flt (result_weighted_score r) (fl 0.7))
                                                completed)\<rparr>;
          self = (if completed \<noteq> []
                  then self\<lparr>avg_weighted_score :=
                         py_round (fdiv (py_sum (map result_weighted_score completed))
                                        (fl (real (length completed)))) 4\<rparr>
                  else self);
          self = self\<lparr>run_alerts := []\<rparr>
      in foldl (\<lambda>self r. self\<lparr>run_alerts := run_alerts self @ alerts r\<rparr>) self (results self))"

section \<open>Scoring engine (pkg/scoring/engine.py)\<close>

text \<open>
  An episode is the dict returned by the episode store. Each key the engine reads is a
  field that is \<open>None\<close> when the key is missing; \<open>ep_other_keys\<close> lists the keys
  the engine never reads (\<^verbatim>\<open>total_tokens\<close>, \<^verbatim>\<open>metadata\<close>, ...), which matter only for
  whether the dict is empty. Values have the types the store gives them: strings, lists
  of step dicts, lists of tool names, and numbers that are Python ints or floats. A key
  bound to a value of another type, such as \<^verbatim>\<open>null\<close>, is outside this model.
\<close>

record step =
  step_type :: "string option"

record episode =
  ep_episode_id :: "string option"
  ep_agent_id :: "string option"
  ep_status :: "string option"
  ep_steps :: "step list option"
  ep_tools_used :: "string list option"
  ep_total_cost_usd :: "py_num option"
  ep_total_duration_ms :: "py_num option"
  ep_other_keys :: "string list"

text \<open>The empty dict \<^verbatim>\<open>{}\<close>, the only falsy dict.\<close>

definition empty_episode :: episode where
  "empty_episode =
     \<lparr>ep_episode_id = None, ep_agent_id = None, ep_status = None, ep_steps = None,
      ep_tools_used = None, ep_total_cost_usd = None, ep_total_duration_ms = None,
      ep_other_keys = []\<rparr>"

definition truthy :: "episode \<Rightarrow> bool" where
  "truthy e \<longleftrightarrow>
     \<not> (ep_episode_id e = None \<and> ep_agent_id e = None \<and> ep_status e = None \<and>
        ep_steps e = None \<and> ep_tools_used e = None \<and> ep_total_cost_usd e = None \<and>
        ep_total_duration_ms e = None \<and> ep_other_keys e = [])"

text \<open>\<^verbatim>\<open>d.get(key, default)\<close> on a field.\<close>

definition get_or :: "'a option \<Rightarrow> 'a \<Rightarrow> 'a" where
  "get_or field dflt = (case field of None \<Rightarrow> dflt | Some v \<Rightarrow> v)"

definition score_correctness :: "episode \<Rightarrow> episode \<Rightarrow> py_float" where
  "score_correctness current baseline =
     (let current_status = get_or (ep_status current) '''';
          baseline_status = get_or (ep_status baseline) '''';
          score = (if current_status = baseline_status then Finite 1
                   else if current_status = ''success'' then fl 0.8
                   else Finite 0);
          current_steps = length (get_or (ep_steps current) []);
          baseline_steps = length (get_or (ep_steps baseline) []);
          score = (if current_steps > 0 \<and> baseline_steps > 0
                   then (let step_ratio = len_div (min current_steps baseline_steps)
                                                  (max current_steps baseline_steps)
                         in fadd (fmul score (fl 0.7)) (fmul step_ratio (fl 0.3)))
                   else score)
      in py_round score 4)"

text \<open>The two deltas raise where the subtraction or the division of the two numbers
  does.\<close>

definition score_cost_delta :: "episode \<Rightarrow> episode \<Rightarrow> py_error + py_float" where
  "score_cost_delta current baseline =
     (let current_cost = get_or (ep_total_cost_usd current) (PyFloat (Finite 0));
          baseline_cost = get_or (ep_total_cost_usd baseline) (PyFloat (Finite 0))
      in if num_is_zero baseline_cost then Inr (Finite 0)
         else then_do (num_sub current_cost baseline_cost) (\<lambda>diff.
              then_do (num_truediv diff baseline_cost) (\<lambda>quot.
                (let delta_pct = fmul quot (Finite 100)
                 in Inr (py_round delta_pct 2)))))"

definition score_latency_delta :: "episode \<Rightarrow> episode \<Rightarrow> py_error + py_float" where
  "score_latency_delta current baseline =
     (let current_ms = get_or (ep_total_duration_ms current) (PyInt 0);
          baseline_ms = get_or (ep_total_duration_ms baseline) (PyInt 0)
      in if num_is_zero baseline_ms then Inr (Finite 0)
         else then_do (num_sub current_ms baseline_ms) (\<lambda>diff.
              then_do (num_truediv diff baseline_ms) (\<lambda>quot.
                (let delta_pct = fmul quot (Finite 100)
                 in Inr (py_round delta_pct 2)))))"

definition score_tool_match :: "episode \<Rightarrow> episode \<Rightarrow> py_float" where
  "score_tool_match current baseline =
     (let current_tools = get_or (ep_tools_used current) [];
          baseline_tools = get_or (ep_tools_used baseline) []
      in if baseline_tools = [] \<and> current_tools = [] then Finite 1
         else if baseline_tools = [] \<or> current_tools = [] then Finite 0
         else
           (let current_set = set current_tools;
                baseline_set = set baseline_tools;
                overlap = card (current_set \<inter> baseline_set);
                union = card (current_set \<union> baseline_set);
                set_score = (if union > 0 then len_div overlap union else Finite 1);
                min_len = min (length current_tools) (length baseline_tools);
                order_score =
                  (if min_len > 0
                   then (let matches = length (filter (\<lambda>i. current_tools ! i = baseline_tools ! i)
                                                       [0..<min_len])
                         in len_div matches min_len)
                   else Finite 0)
            in py_round (fadd (fmul set_score (fl 0.6)) (fmul order_score (fl 0.4))) 4))"

definition score_safety :: "episode \<Rightarrow> py_float" where
  "score_safety ep =
     (let steps = get_or (ep_steps ep) []
      in if steps = [] then Finite 1
         else (let error_steps = filter (\<lambda>s. step_type s = Some ''error'') steps;
                   error_ratio = len_div (length error_steps) (length steps)
               in py_round (fsub (Finite 1) error_ratio) 4))"

text \<open>
  \<^verbatim>\<open>ScoringEngine.score\<close>. \<^verbatim>\<open>baseline or original\<close> takes \<^verbatim>\<open>original\<close> both when
  no baseline is passed and when the baseline passed is the empty dict. The dimensions
  are computed in the order of the source, so the first exception is the one that
  escapes.
\<close>

definition score ::
  "(string \<rightharpoonup> py_value) \<Rightarrow> EvalConfig \<Rightarrow> episode \<Rightarrow> episode option
     \<Rightarrow> py_error + ScoreCard" where
  "score inherited config original baseline =
     (let has_baseline = (case baseline of None \<Rightarrow> False | Some b \<Rightarrow> truthy b);
          compare = (case baseline of None \<Rightarrow> original
                     | Some b \<Rightarrow> if truthy b then b else original);
          card = ScoreCard_init (get_or (ep_episode_id original) '''')
                                (get_or (ep_agent_id original) '''')
                                (if has_baseline then ep_episode_id compare else None);
          card = card\<lparr>correctness := score_correctness original compare\<rparr>
      in then_do (score_cost_delta original compare) (\<lambda>cd.
         then_do (score_latency_delta original compare) (\<lambda>ld.
           (let card = card\<lparr>cost_delta := cd\<rparr>;
                card = card\<lparr>latency_delta := ld\<rparr>;
                card = card\<lparr>tool_match := score_tool_match original compare\<rparr>;
                card = card\<lparr>safety := score_safety original\<rparr>
            in compute_weighted inherited card (score_weights config)))))"

section \<open>Regression detector (pkg/regression/detector.py)\<close>

text \<open>The constructor call \<^verbatim>\<open>RegressionAlert(...)\<close>; \<^verbatim>\<open>baseline_value\<close>,
  \<^verbatim>\<open>current_value\<close> and \<^verbatim>\<open>delta_pct\<close> default to \<open>0.0\<close> when not passed.\<close>

definition RegressionAlert_init ::
  "string \<Rightarrow> string \<Rightarrow> ScoreDimension \<Rightarrow> RegressionSeverity \<Rightarrow> alert_message
     \<Rightarrow> py_float \<Rightarrow> py_float \<Rightarrow> py_float \<Rightarrow> RegressionAlert" where
  "RegressionAlert_init rid eid d sev msg bv cv dp =
     \<lparr>eval_run_id = rid, alert_episode_id = eid, dimension = d, severity = sev,
      message = msg, baseline_value = bv, current_value = cv, delta_pct = dp\<rparr>"

definition check :: "EvalConfig \<Rightarrow> EvalResult \<Rightarrow> RegressionAlert list" where
  "check config result =
     (case score_card result of
        None \<Rightarrow> []
      | Some sc \<Rightarrow>
          (if fgt (cost_delta sc) (cost_threshold_pct config)
           then [RegressionAlert_init '''' (episode_id sc) COST_DELTA
                   (if fgt (cost_delta sc) (fmul (cost_threshold_pct config) (Finite 2))
                    then CRITICAL else WARNING)
                   (Cost_increased (cost_delta sc) (cost_threshold_pct config))
                   (Finite 0) (cost_delta sc) (cost_delta sc)]
           else []) @
          (if fgt (latency_delta sc) (latency_threshold_pct config)
           then [RegressionAlert_init '''' (episode_id sc) LATENCY_DELTA
                   (if fgt (latency_delta sc) (fmul (latency_threshold_pct config) (Finite 2))
                    then CRITICAL else WARNING)
                   (Latency_increased (latency_delta sc) (latency_threshold_pct config))
                   (Finite 0) (latency_delta sc) (latency_delta sc)]
           else []) @
          (if flt (correctness sc) (fl 0.5)
           then [RegressionAlert_init '''' (episode_id sc) CORRECTNESS CRITICAL
                   (Correctness_dropped (correctness sc)) (Finite 0) (correctness sc) (Finite 0)]
           else []) @
          (if flt (tool_match sc) (fl 0.5)
           then [RegressionAlert_init '''' (episode_id sc) TOOL_MATCH WARNING
                   (Tool_match_dropped (tool_match sc)) (Finite 0) (tool_match sc) (Finite 0)]
           else []) @
          (if flt (safety sc) (fl 0.8)
           then [RegressionAlert_init '''' (episode_id sc) SAFETY CRITICAL
                   (Safety_dropped (safety sc)) (Finite 0) (safety sc) (Finite 0)]
           else []) @
          (if flt (weighted_score sc) (fl 0.5)
           then [RegressionAlert_init '''' (episode_id sc) CORRECTNESS CRITICAL
                   (Overall_below (weighted_score sc)) (Finite 0) (weighted_score sc) (Finite 0)]
           else []))"

text \<open>
  \<^verbatim>\<open>check_batch\<close>. The inner loop assigns \<^verbatim>\<open>eval_run_id\<close> on the alert objects
  themselves, and the very list that holds them is what is stored in
  \<^verbatim>\<open>result.alerts\<close>: the attached alerts are the stamped ones. The model returns the
  updated results together with \<^verbatim>\<open>all_alerts\<close>.
\<close>

fun check_batch_loop ::
  "EvalConfig \<Rightarrow> EvalResult list \<Rightarrow> string \<Rightarrow> RegressionAlert list
     \<Rightarrow> EvalResult list \<times> RegressionAlert list" where
  "check_batch_loop config [] rid all_alerts = ([], all_alerts)"
| "check_batch_loop config (result # rest) rid all_alerts =
     (let alerts_r = map (\<lambda>alert. alert\<lparr>eval_run_id := rid\<rparr>) (check config result);
          (rest', out) = check_batch_loop config rest rid (all_alerts @ alerts_r)
      in (result\<lparr>alerts := alerts_r\<rparr> # rest', out))"

definition check_batch ::
  "EvalConfig \<Rightarrow> EvalResult list \<Rightarrow> string \<Rightarrow> EvalResult list \<times> RegressionAlert list" where
  "check_batch config rs rid = check_batch_loop config rs rid []"

section \<open>The specification's formulas\<close>

text \<open>
  The definitions of this section are written from the specification's sentences, not
  from the code; the theorems below compare the code with them. The formulas are
  formulas of the program's arithmetic, on floats.
\<close>


text \<open>Correctness: the base from the two statuses, blended with the step-count
  similarity when both episodes have a step.\<close>

definition spec_correctness_base :: "string \<Rightarrow> string \<Rightarrow> py_float" where
  "spec_correctness_base cur_status base_status =
     (if cur_status = base_status then Finite 1
      else if cur_status = ''success'' then fl 0.8
      else Finite 0)"

definition spec_correctness :: "string \<Rightarrow> string \<Rightarrow> nat \<Rightarrow> nat \<Rightarrow> py_float" where
  "spec_correctness cur_status base_status n_cur n_base =
     (if n_cur = 0 \<or> n_base = 0
      then py_round (spec_correctness_base cur_status base_status) 4
      else py_round (fadd (fmul (spec_correctness_base cur_status base_status) (fl 0.7))
                          (fmul (len_div (min n_cur n_base) (max n_cur n_base)) (fl 0.3))) 4)"

text \<open>Tool match: Jaccard overlap of the two name sets and the ratio of equal positions
  among the first \<open>min\<close> positions.\<close>

definition jaccard :: "'a set \<Rightarrow> 'a set \<Rightarrow> py_float" where
  "jaccard A B = len_div (card (A \<inter> B)) (card (A \<union> B))"

definition position_ratio :: "'a list \<Rightarrow> 'a list \<Rightarrow> py_float" where
  "position_ratio xs ys =
     len_div (length (filter (\<lambda>(x, y). x = y) (zip xs ys))) (min (length xs) (length ys))"

definition spec_tool_match :: "string list \<Rightarrow> string list \<Rightarrow> py_float" where
  "spec_tool_match cur base =
     (if cur = [] \<and> base = [] then Finite 1
      else if cur = [] \<or> base = [] then Finite 0
      else py_round (fadd (fmul (jaccard (set cur) (set base)) (fl 0.6))
                          (fmul (position_ratio cur base) (fl 0.4))) 4)"

text \<open>Safety: one minus the share of error steps, rounded to 4 decimals; 1.0 without
  steps.\<close>

definition spec_safety :: "nat \<Rightarrow> nat \<Rightarrow> py_float" where
  "spec_safety n_error n_total =
     (if n_total = 0 then Finite 1
      else py_round (fsub (Finite 1) (len_div n_error n_total)) 4)"

text \<open>Weighted score: the five dimension names, the value each contributes, and the sum
  of weight times value over the entries of the weight map.\<close>

definition dimension_names :: "string list" where
  "dimension_names =
     [''correctness'', ''cost_delta'', ''latency_delta'', ''tool_match'', ''safety'']"

definition delta_goodness :: "py_float \<Rightarrow> py_float" where
  "delta_goodness delta = py_max (Finite 0) (fsub (Finite 1) (fdiv (fabs delta) (Finite 100)))"

definition dimension_value :: "ScoreCard \<Rightarrow> string \<Rightarrow> py_float" where
  "dimension_value c d =
     (if d = ''correctness'' then correctness c
      else if d = ''cost_delta'' then delta_goodness (cost_delta c)
      else if d = ''latency_delta'' then delta_goodness (latency_delta c)
      else if d = ''tool_match'' then tool_match c
      else if d = ''safety'' then safety c
      else Finite 0)"

definition spec_weighted_sum :: "ScoreCard \<Rightarrow> (string \<times> py_float) list \<Rightarrow> py_float" where
  "spec_weighted_sum c weights =
     foldl (\<lambda>acc (d, w). fadd acc (fmul w (dimension_value c d))) (Finite 0) weights"

text \<open>Regression rules 2 to 7 as a table of condition, dimension tag and severity, in rule
  order; rule 1 is the missing score card.\<close>

definition spec_severity_band :: "py_float \<Rightarrow> py_float \<Rightarrow> RegressionSeverity" where
  "spec_severity_band delta threshold =
     (if fgt delta (fmul (Finite 2) threshold) then CRITICAL else WARNING)"

definition spec_rules ::
  "EvalConfig \<Rightarrow> ScoreCard \<Rightarrow> (bool \<times> ScoreDimension \<times> RegressionSeverity) list" where
  "spec_rules config c =
     [(fgt (cost_delta c) (cost_threshold_pct config),
         COST_DELTA, spec_severity_band (cost_delta c) (cost_threshold_pct config)),
      (fgt (latency_delta c) (latency_threshold_pct config),
         LATENCY_DELTA, spec_severity_band (latency_delta c) (latency_threshold_pct config)),
      (flt (correctness c) (fl 0.5), CORRECTNESS, CRITICAL),
      (flt (tool_match c) (fl 0.5), TOOL_MATCH, WARNING),
      (flt (safety c) (fl 0.8), SAFETY, CRITICAL),
      (flt (weighted_score c) (fl 0.5), CORRECTNESS, CRITICAL)]"

definition spec_check ::
  "EvalConfig \<Rightarrow> EvalResult \<Rightarrow> (ScoreDimension \<times> RegressionSeverity) list" where
  "spec_check config r =
     (case score_card r of
        None \<Rightarrow> []
      | Some c \<Rightarrow> map snd (filter fst (spec_rules config c)))"

text \<open>Stamping an alert with a run id.\<close>

definition stamp :: "string \<Rightarrow> RegressionAlert \<Rightarrow> RegressionAlert" where
  "stamp rid a = a\<lparr>eval_run_id := rid\<rparr>"

section \<open>Concrete inputs\<close>

text \<open>The fixture \<^verbatim>\<open>sample_episode\<close> of the test suite (tests/conftest.py).\<close>

definition sample_episode :: episode where
  "sample_episode =
     \<lparr>ep_episode_id = Some ''ep-test-001'', ep_agent_id = Some ''test-agent'',
      ep_status = Some ''success'',
      ep_steps = Some [\<lparr>step_type = Some ''llm_call''\<rparr>, \<lparr>step_type = Some ''tool_call''\<rparr>],
      ep_tools_used = Some [''calculator''],
      ep_total_cost_usd = Some (PyFloat (fl 0.004)),
      ep_total_duration_ms = Some (PyInt 600),
      ep_other_keys = [''total_tokens'', ''step_count'', ''started_at'', ''ended_at'',
                       ''metadata'']\<rparr>"


text \<open>A baseline that costs and lasts less, failed, and used other tools.\<close>

definition other_baseline :: episode where
  "other_baseline =
     \<lparr>ep_episode_id = Some ''ep-baseline-002'', ep_agent_id = Some ''test-agent'',
      ep_status = Some ''failure'',
      ep_steps = Some [\<lparr>step_type = Some ''llm_call''\<rparr>, \<lparr>step_type = Some ''error''\<rparr>,
                       \<lparr>step_type = Some ''error''\<rparr>],
      ep_tools_used = Some [''web_search'', ''calculator''],
      ep_total_cost_usd = Some (PyFloat (fl 0.003)),
      ep_total_duration_ms = Some (PyInt 400),
      ep_other_keys = []\<rparr>"

definition error_step :: step where
  "error_step = \<lparr>step_type = Some ''error''\<rparr>"

definition llm_step :: step where
  "llm_step = \<lparr>step_type = Some ''llm_call''\<rparr>"

text \<open>An episode of 20001 steps of which all but the last are error steps.\<close>

definition nearly_all_errors :: episode where
  "nearly_all_errors =
     empty_episode\<lparr>ep_episode_id := Some ''ep-long'',
                    ep_steps := Some (replicate 20000 error_step @ [llm_step])\<rparr>"

text \<open>
  A pair of episodes on which every exact value lies halfway between two neighbours of
  the last kept decimal, so that the result shows on which side the float computation
  falls: a failed episode of one step, 32 tools, cost 0.024001 and 183 ms, against a
  successful baseline of 16 steps, the one tool \<^verbatim>\<open>t31\<close>, cost 0.02 and 160 ms.
\<close>

definition thirty_two_tools :: "string list" where
  "thirty_two_tools =
     [''t00'', ''t01'', ''t02'', ''t03'', ''t04'', ''t05'', ''t06'', ''t07'',
      ''t08'', ''t09'', ''t10'', ''t11'', ''t12'', ''t13'', ''t14'', ''t15'',
      ''t16'', ''t17'', ''t18'', ''t19'', ''t20'', ''t21'', ''t22'', ''t23'',
      ''t24'', ''t25'', ''t26'', ''t27'', ''t28'', ''t29'', ''t30'', ''t31'']"

definition halfway_current :: episode where
  "halfway_current =
     \<lparr>ep_episode_id = Some ''ep-h1'', ep_agent_id = Some ''test-agent'',
      ep_status = Some ''failure'',
      ep_steps = Some [error_step],
      ep_tools_used = Some thirty_two_tools,
      ep_total_cost_usd = Some (PyFloat (fl 0.024001)),
      ep_total_duration_ms = Some (PyInt 183),
      ep_other_keys = []\<rparr>"

definition halfway_baseline :: episode where
  "halfway_baseline =
     \<lparr>ep_episode_id = Some ''ep-h0'', ep_agent_id = Some ''test-agent'',
      ep_status = Some ''success'',
      ep_steps = Some (replicate 16 llm_step),
      ep_tools_used = Some [''t31''],
      ep_total_cost_usd = Some (PyFloat (fl 0.02)),
      ep_total_duration_ms = Some (PyInt 160),
      ep_other_keys = []\<rparr>"

text \<open>An episode of 160 steps of which 7 are error steps, and one whose duration is an
  integer of 401 digits.\<close>

definition seven_of_160 :: episode where
  "seven_of_160 =
     empty_episode\<lparr>ep_episode_id := Some ''ep-160'',
                    ep_steps := Some (replicate 7 error_step @ replicate 153 llm_step)\<rparr>"



text \<open>The score card and result of the test \<^verbatim>\<open>test_batch_check\<close>
  (tests/test_regression.py), and a result that was never scored.\<close>

definition batch_card :: ScoreCard where
  "batch_card =
     \<lparr>episode_id = ''ep-1'', agent_id = ''a'', baseline_episode_id = None,
      correctness = fl 0.9, cost_delta = Finite 50, latency_delta = Finite 0,
      tool_match = fl 0.9, safety = Finite 1, weighted_score = fl 0.8\<rparr>"

definition batch_result :: EvalResult where
  "batch_result =
     \<lparr>result_episode_id = ''ep-1'', result_agent_id = ''a'', result_status = COMPLETED,
      score_card = Some batch_card, alerts = [], error = None, duration_ms = 0\<rparr>"

definition unscored_result :: EvalResult where
  "unscored_result =
     \<lparr>result_episode_id = ''ep-2'', result_agent_id = ''a'', result_status = FAILED,
      score_card = None, alerts = [], error = Some ''fetch failed'', duration_ms = 0\<rparr>"

text \<open>A card on which rules 3, 4, 5, 6 and 7 fire and rule 2 does not.\<close>

definition poor_card :: ScoreCard where
  "poor_card =
     \<lparr>episode_id = ''ep-3'', agent_id = ''a'', baseline_episode_id = Some ''ep-0'',
      correctness = fl 0.3, cost_delta = Finite 20, latency_delta = Finite 45,
      tool_match = fl 0.2, safety = Finite 0.5, weighted_score = fl 0.4\<rparr>"

definition poor_result :: EvalResult where
  "poor_result =
     \<lparr>result_episode_id = ''ep-3'', result_agent_id = ''a'', result_status = COMPLETED,
      score_card = Some poor_card, alerts = [], error = None, duration_ms = 12\<rparr>"

text \<open>A card whose exact weighted sum with the default weights is 0.69995.\<close>

definition halfway_card :: ScoreCard where
  "halfway_card =
     \<lparr>episode_id = ''ep-4'', agent_id = ''a'', baseline_episode_id = None,
      correctness = Finite 1, cost_delta = Finite 100, latency_delta = fl 20.05,
      tool_match = fl 0.6, safety = Finite 1, weighted_score = Finite 0\<rparr>"

text \<open>A run whose only result has no score card and whose stored average is \<open>0.5\<close>.\<close>

definition stale_run :: EvalRun where
  "stale_run =
     \<lparr>run_id = ''run-1'', run_status = COMPLETED, results = [unscored_result],
      run_alerts = [], total_episodes = 0, passed = 0, failed = 0,
      avg_weighted_score = Finite 0.5\<rparr>"

text \<open>A completed result whose card has the given weighted score, and two runs of two
  such results: the specification's example with 0.9 and 0.3, and one whose exact
  average, 0.00015, lies halfway between two neighbours of the fourth decimal.\<close>

definition scored_result :: "py_float \<Rightarrow> EvalResult" where
  "scored_result w =
     \<lparr>result_episode_id = ''ep-s'', result_agent_id = ''a'', result_status = COMPLETED,
      score_card = Some \<lparr>episode_id = ''ep-s'', agent_id = ''a'', baseline_episode_id = None,
                         correctness = Finite 0, cost_delta = Finite 0, latency_delta = Finite 0,
                         tool_match = Finite 0, safety = Finite 1, weighted_score = w\<rparr>,
      alerts = [], error = None, duration_ms = 0\<rparr>"

definition fresh_run :: "EvalResult list \<Rightarrow> EvalRun" where
  "fresh_run rs =
     \<lparr>run_id = ''run-2'', run_status = RUNNING, results = rs, run_alerts = [],
      total_episodes = 0, passed = 0, failed = 0, avg_weighted_score = Finite 0\<rparr>"

text \<open>One attribute that \<^verbatim>\<open>ScoreCard\<close> inherits, a bound method.\<close>

definition one_inherited :: "string \<rightharpoonup> py_value" where
  "one_inherited = [''model_dump'' \<mapsto> PyObject]"

section \<open>Float rounding\<close>

subsection \<open>Rounding to an integer\<close>

lemma round_half_even_of_int: "round_half_even (of_int k) = k"
  by (simp add: round_half_even_def)

lemma round_half_even_mono:
  assumes "a \<le> b"
  shows "round_half_even a \<le> round_half_even b"
proof (cases "\<lfloor>a\<rfloor> = \<lfloor>b\<rfloor>")
  case True
  with assms show ?thesis
    by (auto simp: round_half_even_def Let_def)
next
  case False
  with assms have "\<lfloor>a\<rfloor> + 1 \<le> \<lfloor>b\<rfloor>"
    using floor_mono [OF assms] by linarith
  moreover have "round_half_even a \<le> \<lfloor>a\<rfloor> + 1"
    by (simp add: round_half_even_def Let_def)
  moreover have "\<lfloor>b\<rfloor> \<le> round_half_even b"
    by (simp add: round_half_even_def Let_def)
  ultimately show ?thesis by linarith
qed

lemma round_half_even_ge: "of_int k \<le> y \<Longrightarrow> k \<le> round_half_even y"
  using round_half_even_mono [of "of_int k" y] by (simp add: round_half_even_of_int)

lemma round_half_even_le: "y \<le> of_int k \<Longrightarrow> round_half_even y \<le> k"
  using round_half_even_mono [of y "of_int k"] by (simp add: round_half_even_of_int)

lemma round_half_even_above_half:
  assumes "1 / 2 < y"
  shows "1 \<le> round_half_even y"
proof -
  have "0 \<le> \<lfloor>y\<rfloor>" using assms by simp
  then consider "\<lfloor>y\<rfloor> = 0" | "1 \<le> \<lfloor>y\<rfloor>" by linarith
  then show ?thesis
  proof cases
    case 1
    then show ?thesis using assms by (simp add: round_half_even_def Let_def)
  next
    case 2
    moreover have "\<lfloor>y\<rfloor> \<le> round_half_even y"
      by (simp add: round_half_even_def Let_def)
    ultimately show ?thesis by linarith
  qed
qed

subsection \<open>Powers of two and binary length\<close>

lemma pow2_pos: "0 < pow2 e"
  by (simp add: pow2_def)

lemma pow2_powr: "pow2 e = 2 powr (of_int e)"
proof (cases "0 \<le> e")
  case True
  then obtain n where n: "e = int n"
    using nonneg_int_cases by blast
  show ?thesis
    by (simp add: n pow2_def powr_realpow)
next
  case False
  then have "e < 0" by simp
  then obtain n where n: "e = - int n" and "0 < n"
    using neg_int_cases by blast
  have "(2::real) powr (- real n) = 1 / 2 powr (real n)"
    by (simp add: powr_minus_divide)
  then show ?thesis
    using \<open>0 < n\<close> by (simp add: n pow2_def powr_realpow)
qed

lemma pow2_add: "pow2 (a + b) = pow2 a * pow2 b"
  by (simp add: pow2_powr powr_add)

lemma pow2_le_iff: "pow2 a \<le> pow2 b \<longleftrightarrow> a \<le> b"
  by (simp add: pow2_powr)

lemma pow2_less_iff: "pow2 a < pow2 b \<longleftrightarrow> a < b"
  by (simp add: pow2_powr)

lemma pow2_of_nat: "0 \<le> e \<Longrightarrow> pow2 e = of_int (2 ^ nat e)"
  by (simp add: pow2_def)

lemma bit_length_bounds:
  "0 < n \<Longrightarrow> 1 \<le> bit_length n \<and> 2 ^ nat (bit_length n - 1) \<le> n \<and> n < 2 ^ nat (bit_length n)"
proof (induction n rule: bit_length.induct)
  case (1 n)
  show ?case
  proof (cases "n = 1")
    case True
    then show ?thesis
      by (simp add: bit_length.simps [of 1] bit_length.simps [of 0])
  next
    case False
    with "1.prems" have h: "0 < n div 2" by linarith
    have n: "\<not> n \<le> 0" using "1.prems" by simp
    from "1.IH" [OF n h]
    have b: "1 \<le> bit_length (n div 2)"
      and lo: "2 ^ nat (bit_length (n div 2) - 1) \<le> n div 2"
      and hi: "n div 2 < 2 ^ nat (bit_length (n div 2))"
      by simp_all
    have eq: "bit_length n = 1 + bit_length (n div 2)"
      using n by (subst bit_length.simps) simp
    have p: "nat (bit_length (n div 2)) = Suc (nat (bit_length (n div 2) - 1))"
      using b by linarith
    have "2 * 2 ^ nat (bit_length (n div 2) - 1) \<le> n"
      using lo by linarith
    moreover have "n < 2 * 2 ^ nat (bit_length (n div 2))"
      using hi by linarith
    ultimately show ?thesis
      using b by (simp add: eq p nat_add_distrib)
  qed
qed

lemma floor_log2_bounds:
  assumes "0 < x"
  shows "pow2 (floor_log2 x) \<le> x \<and> x < pow2 (floor_log2 x + 1)"
proof (cases "1 \<le> x")
  case True
  define n where "n = \<lfloor>x\<rfloor>"
  have n: "0 < n" using True by (simp add: n_def)
  note b = bit_length_bounds [OF n]
  have e: "floor_log2 x = bit_length n - 1"
    using True by (simp add: floor_log2_def n_def)
  have "of_int (2 ^ nat (bit_length n - 1)) \<le> (of_int n :: real)"
    using b by (simp only: of_int_le_iff)
  also have "of_int n \<le> x" by (simp add: n_def)
  finally have lo: "pow2 (bit_length n - 1) \<le> x"
    using b by (simp add: pow2_of_nat)
  have "n + 1 \<le> 2 ^ nat (bit_length n)" using b by linarith
  then have "(of_int (n + 1) :: real) \<le> of_int (2 ^ nat (bit_length n))"
    by (simp only: of_int_le_iff)
  moreover have "x < of_int (n + 1)" by (simp add: n_def)
  ultimately have hi: "x < pow2 (bit_length n)"
    using b by (simp add: pow2_of_nat)
  show ?thesis using lo hi by (simp add: e)
next
  case False
  define y where "y = 1 / x"
  define n where "n = \<lceil>y\<rceil> - 1"
  have y1: "1 < y" using False assms by (simp add: y_def)
  have "2 \<le> \<lceil>y\<rceil>" using y1 by linarith
  then have n: "0 < n" by (simp add: n_def)
  note b = bit_length_bounds [OF n]
  have e: "floor_log2 x = - bit_length n"
    using False by (simp add: floor_log2_def n_def y_def)
  have xy: "x = 1 / y" using assms by (simp add: y_def)
  have "y \<le> of_int (n + 1)" by (simp add: n_def)
  also have "(of_int (n + 1) :: real) \<le> of_int (2 ^ nat (bit_length n))"
    using b by (simp only: of_int_le_iff) linarith
  finally have "y \<le> 2 ^ nat (bit_length n)" by simp
  then have lo: "1 / 2 ^ nat (bit_length n) \<le> x"
    using y1 by (simp add: xy field_simps)
  have "(of_int (2 ^ nat (bit_length n - 1)) :: real) \<le> of_int n"
    using b by (simp only: of_int_le_iff)
  also have "of_int n < y" by (simp add: n_def) linarith
  finally have "2 ^ nat (bit_length n - 1) < y" by simp
  then have hi: "x < 1 / 2 ^ nat (bit_length n - 1)"
    using y1 by (simp add: xy field_simps)
  have p1: "pow2 (- bit_length n) = 1 / 2 ^ nat (bit_length n)"
    using b by (simp add: pow2_def)
  have p2: "pow2 (- bit_length n + 1) = 1 / 2 ^ nat (bit_length n - 1)"
  proof (cases "bit_length n = 1")
    case True
    then show ?thesis by (simp add: pow2_def)
  next
    case False
    with b have "\<not> 0 \<le> - bit_length n + 1" by linarith
    moreover have "- (- bit_length n + 1) = bit_length n - 1" by simp
    ultimately show ?thesis by (simp add: pow2_def)
  qed
  have "pow2 (- bit_length n) \<le> x"
    using lo by (simp only: p1)
  moreover have "x < pow2 (- bit_length n + 1)"
    using hi by (simp only: p2)
  ultimately show ?thesis
    unfolding e by blast
qed

lemma floor_log2_mono:
  assumes "0 < x" "x \<le> y"
  shows "floor_log2 x \<le> floor_log2 y"
proof -
  have "pow2 (floor_log2 x) \<le> x" using floor_log2_bounds [OF assms(1)] by simp
  also have "x \<le> y" by fact
  also have "y < pow2 (floor_log2 y + 1)" using floor_log2_bounds [of y] assms by simp
  finally show ?thesis by (simp add: pow2_less_iff)
qed
subsection \<open>Rounding to binary64\<close>

lemmas float_eval =
  fl_def round_nearest_def binade_exp_def floor_log2_def bit_length.simps
  round_half_even_def pow2_def Let_def

lemma round_nearest_0: "round_nearest 0 = 0"
  by (simp add: round_nearest_def)

lemma round_nearest_1: "round_nearest 1 = 1"
  by (simp add: float_eval)

lemma round_nearest_pos:
  "0 < x \<Longrightarrow>
   round_nearest x = of_int (round_half_even (x / pow2 (binade_exp x))) * pow2 (binade_exp x)"
  by (simp add: round_nearest_def)

lemma round_nearest_minus: "round_nearest (- x) = - round_nearest x"
  by (simp add: round_nearest_def sgn_minus)

lemma round_nearest_nonneg:
  assumes "0 \<le> x"
  shows "0 \<le> round_nearest x"
proof (cases "x = 0")
  case True
  then show ?thesis by (simp add: round_nearest_0)
next
  case False
  with assms have x: "0 < x" by simp
  have "0 \<le> x / pow2 (binade_exp x)"
    using x pow2_pos [of "binade_exp x"] by simp
  then have "0 \<le> round_half_even (x / pow2 (binade_exp x))"
    using round_half_even_ge [of 0] by simp
  then show ?thesis
    using pow2_pos [of "binade_exp x"] by (simp add: round_nearest_pos [OF x])
qed

lemma round_nearest_nonpos: "x \<le> 0 \<Longrightarrow> round_nearest x \<le> 0"
  using round_nearest_nonneg [of "- x"] by (simp add: round_nearest_minus)

lemma binade_exp_mono: "0 < x \<Longrightarrow> x \<le> y \<Longrightarrow> binade_exp x \<le> binade_exp y"
  using floor_log2_mono [of x y] by (simp add: binade_exp_def)

lemma round_nearest_upper:
  assumes "0 < x"
  shows "round_nearest x \<le> pow2 (binade_exp x + 53)"
proof -
  define e where "e = binade_exp x"
  have "floor_log2 x + 1 \<le> e + 53" by (simp add: e_def binade_exp_def)
  then have "pow2 (floor_log2 x + 1) \<le> pow2 (e + 53)" by (simp add: pow2_le_iff)
  with floor_log2_bounds [OF assms] have "x < pow2 (e + 53)" by simp
  then have "x < pow2 e * of_int (2 ^ 53)" by (simp add: pow2_add pow2_of_nat)
  then have "x / pow2 e \<le> of_int (2 ^ 53)"
    using pow2_pos [of e] by (simp add: field_simps)
  then have "round_half_even (x / pow2 e) \<le> 2 ^ 53"
    by (rule round_half_even_le)
  then have "(of_int (round_half_even (x / pow2 e)) :: real) \<le> of_int (2 ^ 53)"
    by (simp only: of_int_le_iff)
  then have "of_int (round_half_even (x / pow2 e)) * pow2 e \<le> of_int (2 ^ 53) * pow2 e"
    using pow2_pos [of e] by (simp only: mult_le_cancel_right) simp
  then show ?thesis
    by (simp add: round_nearest_pos [OF assms] e_def [symmetric] pow2_add pow2_of_nat mult.commute)
qed

lemma round_nearest_lower:
  assumes "0 < x" and "- 1074 \<le> floor_log2 x - 52"
  shows "pow2 (floor_log2 x) \<le> round_nearest x"
proof -
  define e where "e = binade_exp x"
  have e: "floor_log2 x = e + 52" using assms(2) by (simp add: e_def binade_exp_def)
  have "pow2 e * of_int (2 ^ 52) \<le> x"
    using floor_log2_bounds [OF assms(1)] by (simp add: e pow2_add pow2_of_nat)
  then have "of_int (2 ^ 52) \<le> x / pow2 e"
    using pow2_pos [of e] by (simp add: field_simps)
  then have "2 ^ 52 \<le> round_half_even (x / pow2 e)"
    by (rule round_half_even_ge)
  then have "(of_int (2 ^ 52) :: real) \<le> of_int (round_half_even (x / pow2 e))"
    by (simp only: of_int_le_iff)
  then have "of_int (2 ^ 52) * pow2 e \<le> of_int (round_half_even (x / pow2 e)) * pow2 e"
    using pow2_pos [of e] by (simp only: mult_le_cancel_right) simp
  then show ?thesis
    by (simp add: round_nearest_pos [OF assms(1)] e_def [symmetric] e pow2_add pow2_of_nat
                  mult.commute)
qed

lemma round_nearest_mono_pos:
  assumes "0 < x" "x \<le> y"
  shows "round_nearest x \<le> round_nearest y"
proof -
  have y: "0 < y" using assms by simp
  have le: "binade_exp x \<le> binade_exp y" by (rule binade_exp_mono [OF assms])
  show ?thesis
  proof (cases "binade_exp x = binade_exp y")
    case True
    have "x / pow2 (binade_exp y) \<le> y / pow2 (binade_exp y)"
      using assms(2) pow2_pos [of "binade_exp y"] by (simp add: divide_right_mono)
    then have "round_half_even (x / pow2 (binade_exp y)) \<le> round_half_even (y / pow2 (binade_exp y))"
      by (rule round_half_even_mono)
    then have "(of_int (round_half_even (x / pow2 (binade_exp y))) :: real)
               \<le> of_int (round_half_even (y / pow2 (binade_exp y)))"
      by (simp only: of_int_le_iff)
    then show ?thesis
      using pow2_pos [of "binade_exp y"]
      by (simp add: round_nearest_pos [OF assms(1)] round_nearest_pos [OF y] True)
  next
    case False
    with le have lt: "binade_exp x + 1 \<le> binade_exp y" by simp
    then have "- 1074 < binade_exp y"
      by (simp add: binade_exp_def)
    then have ey: "binade_exp y = floor_log2 y - 52" and ok: "- 1074 \<le> floor_log2 y - 52"
      by (simp_all add: binade_exp_def)
    have "round_nearest x \<le> pow2 (binade_exp x + 53)"
      by (rule round_nearest_upper [OF assms(1)])
    also have "\<dots> \<le> pow2 (floor_log2 y)"
      using lt by (simp add: pow2_le_iff ey)
    also have "\<dots> \<le> round_nearest y"
      by (rule round_nearest_lower [OF y ok])
    finally show ?thesis .
  qed
qed

lemma round_nearest_mono:
  assumes "0 \<le> x" "x \<le> y"
  shows "round_nearest x \<le> round_nearest y"
proof (cases "x = 0")
  case True
  then show ?thesis
    using round_nearest_nonneg [of y] assms by (simp add: round_nearest_0)
next
  case False
  with assms show ?thesis by (simp add: round_nearest_mono_pos)
qed

lemma fl_Finite:
  "- (2 ^ 1024) < round_nearest x \<Longrightarrow> round_nearest x < 2 ^ 1024 \<Longrightarrow>
   fl x = Finite (round_nearest x)"
  by (simp add: fl_def Let_def)

lemma fl_0: "fl 0 = Finite 0"
  by (simp add: fl_def round_nearest_0)

lemma fl_1: "fl 1 = Finite 1"
  by (simp add: fl_def round_nearest_1)

text \<open>A number between 0 and 1 rounds to a float between 0 and 1.\<close>

lemma fl_unit:
  assumes "0 \<le> x" "x \<le> 1"
  shows "fl x = Finite (round_nearest x) \<and> 0 \<le> round_nearest x \<and> round_nearest x \<le> 1"
proof -
  have a: "0 \<le> round_nearest x" by (rule round_nearest_nonneg [OF assms(1)])
  have b: "round_nearest x \<le> 1"
    using round_nearest_mono [OF assms] by (simp add: round_nearest_1)
  have "(1::real) < 2 ^ 1024" by simp
  with a b have "fl x = Finite (round_nearest x)"
    by (intro fl_Finite) linarith+
  with a b show ?thesis by simp
qed


subsection \<open>Float operations\<close>

lemma fmul_commute: "fmul a b = fmul b a"
  by (cases a; cases b) (simp_all add: mult.commute)

lemma flt_irrefl_zero: "flt (Finite 0) v \<Longrightarrow> \<not> flt v (Finite 0)"
  by (cases v) simp_all








section \<open>Scoring engine: the dimension formulas\<close>



text \<open>
  Claim C6. For every current and baseline episode, correctness is the base rounded to 4
  decimals when either episode has no step, and the blend of the base (weight 0.7) with
  the ratio of the smaller to the larger step count (weight 0.3), rounded to 4 decimals,
  when both have a step. The base is 1.0 for equal statuses, 0.8 when the current status
  is "success" and the baseline's differs, and 0.0 otherwise. The formula is evaluated in
  float arithmetic.
\<close>

theorem correctness_formula:
  "score_correctness current baseline =
     spec_correctness (get_or (ep_status current) '''') (get_or (ep_status baseline) '''')
                      (length (get_or (ep_steps current) []))
                      (length (get_or (ep_steps baseline) []))"
  by (simp add: score_correctness_def spec_correctness_def spec_correctness_base_def Let_def)

text \<open>The pair with one step against 16 has the exact value 0.01875; the float
  computation gives 0.0187.\<close>

theorem correctness_formula_witness:
  "score_correctness sample_episode other_baseline = fl 0.76
   \<and> score_correctness other_baseline sample_episode = fl 0.2
   \<and> score_correctness sample_episode (other_baseline\<lparr>ep_steps := None\<rparr>) = fl 0.8
   \<and> score_correctness sample_episode sample_episode = Finite 1
   \<and> score_correctness halfway_current halfway_baseline = fl 0.0187
   \<and> fl 0.0187 \<noteq> fl 0.0188"
proof -
  have 1: "score_correctness sample_episode other_baseline = fl 0.76"
    by (simp add: correctness_formula spec_correctness_def spec_correctness_base_def
                  get_or_def sample_episode_def other_baseline_def len_div_def float_eval)
  have 2: "score_correctness other_baseline sample_episode = fl 0.2"
    by (simp add: correctness_formula spec_correctness_def spec_correctness_base_def
                  get_or_def sample_episode_def other_baseline_def len_div_def float_eval)
  have 3: "score_correctness sample_episode (other_baseline\<lparr>ep_steps := None\<rparr>) = fl 0.8"
    by (simp add: correctness_formula spec_correctness_def spec_correctness_base_def
                  get_or_def sample_episode_def other_baseline_def len_div_def float_eval)
  have 4: "score_correctness sample_episode sample_episode = Finite 1"
    by (simp add: correctness_formula spec_correctness_def spec_correctness_base_def
                  get_or_def sample_episode_def len_div_def float_eval)
  have 5: "score_correctness halfway_current halfway_baseline = fl 0.0187"
    by (simp add: correctness_formula spec_correctness_def spec_correctness_base_def
                  get_or_def halfway_current_def halfway_baseline_def len_div_def float_eval)
  have 6: "fl 0.0187 \<noteq> fl 0.0188"
    by (simp add: float_eval)
  show ?thesis
    using 1 2 3 4 5 6 by blast
qed

section \<open>Scoring engine: the whole card\<close>

text \<open>The card that \<open>score\<close> hands to \<open>compute_weighted\<close>, when neither delta
  raises.\<close>

lemma score_unfold:
  assumes "score_cost_delta original
             (case baseline of None \<Rightarrow> original | Some b \<Rightarrow> if truthy b then b else original)
           = Inr cd"
    and "score_latency_delta original
             (case baseline of None \<Rightarrow> original | Some b \<Rightarrow> if truthy b then b else original)
           = Inr ld"
  shows "score inherited config original baseline =
     compute_weighted inherited
       \<lparr>episode_id = get_or (ep_episode_id original) '''',
        agent_id = get_or (ep_agent_id original) '''',
        baseline_episode_id =
          (case baseline of None \<Rightarrow> None
           | Some b \<Rightarrow> if truthy b then ep_episode_id b else None),
        correctness = score_correctness original
          (case baseline of None \<Rightarrow> original | Some b \<Rightarrow> if truthy b then b else original),
        cost_delta = cd,
        latency_delta = ld,
        tool_match = score_tool_match original
          (case baseline of None \<Rightarrow> original | Some b \<Rightarrow> if truthy b then b else original),
        safety = score_safety original,
        weighted_score = Finite 0\<rparr>
       (score_weights config)"
  using assms
  by (cases baseline) (simp_all add: score_def ScoreCard_init_def Let_def then_do_def)


text \<open>With the default weights of \<open>EvalConfig\<close>.\<close>

lemma compute_weighted_default:
  "compute_weighted inherited c default_score_weights =
     Inr (c\<lparr>weighted_score :=
              py_round
                (fadd (fadd (fadd (fadd (fadd (Finite 0)
                   (fmul (correctness c) (fl 0.4)))
                   (fmul (py_max (Finite 0)
                            (fsub (Finite 1) (fdiv (fabs (cost_delta c)) (Finite 100))))
                         (fl 0.2)))
                   (fmul (py_max (Finite 0)
                            (fsub (Finite 1) (fdiv (fabs (latency_delta c)) (Finite 100))))
                         (fl 0.1)))
                   (fmul (tool_match c) (fl 0.2)))
                   (fmul (safety c) (fl 0.1))) 4\<rparr>)"
  by (simp add: compute_weighted_def default_score_weights_def getattr_card_def)

text \<open>An episode scored against itself has full correctness and full tool match.\<close>

lemma self_correctness: "score_correctness e e = Finite 1"
proof -
  have "fadd (fmul (Finite 1) (fl 0.7)) (fmul (Finite 1) (fl 0.3)) = Finite 1"
    by (simp add: float_eval)
  moreover have "py_round (Finite 1) 4 = Finite 1"
    by (simp add: float_eval)
  ultimately show ?thesis
    by (simp add: score_correctness_def Let_def len_div_def fl_1)
qed

lemma self_tool_match: "score_tool_match e e = Finite 1"
proof -
  have f: "filter (\<lambda>i. xs ! i = xs ! i) [0..<length xs] = [0..<length xs]" for xs :: "string list"
    by simp
  have a: "fadd (fmul (Finite 1) (fl 0.6)) (fmul (Finite 1) (fl 0.4)) = Finite 1"
    by (simp add: float_eval)
  have b: "py_round (Finite 1) 4 = Finite 1"
    by (simp add: float_eval)
  show ?thesis
    using a b by (simp add: score_tool_match_def Let_def len_div_def fl_1 card_gt_0_iff)
qed

lemma sample_self_deltas:
  "score_cost_delta sample_episode sample_episode = Inr (Finite 0)"
  "score_latency_delta sample_episode sample_episode = Inr (Finite 0)"
  by (simp_all add: score_cost_delta_def score_latency_delta_def sample_episode_def get_or_def
                    then_do_def finite_or_overflow_def fsub_def feq_def float_eval)

lemma sample_safety: "score_safety sample_episode = Finite 1"
  by (simp add: score_safety_def sample_episode_def get_or_def len_div_def fsub_def float_eval)

section \<open>Scoring engine: the baseline\<close>

text \<open>
  Claim C10. For every episode, scoring it against a baseline that is supplied but is the
  empty record gives exactly the card of scoring it with no baseline: the comparison
  falls back to the episode itself, and \<open>baseline_episode_id\<close> is absent in both.
\<close>

theorem score_empty_baseline:
  "score inherited config original (Some empty_episode) = score inherited config original None"
  by (simp add: score_def truthy_def empty_episode_def)

text \<open>The sample episode: the empty baseline gives the self-score card, whereas a baseline
  that has a key but none of those the engine reads is compared field by field against
  the defaults.\<close>

theorem score_empty_baseline_witness:
  "score Map.empty EvalConfig_default sample_episode (Some empty_episode) =
     Inr \<lparr>episode_id = ''ep-test-001'', agent_id = ''test-agent'',
          baseline_episode_id = None, correctness = Finite 1, cost_delta = Finite 0,
          latency_delta = Finite 0, tool_match = Finite 1, safety = Finite 1,
          weighted_score = Finite 1\<rparr>
   \<and> score Map.empty EvalConfig_default sample_episode
        (Some (empty_episode\<lparr>ep_other_keys := [''metadata'']\<rparr>)) =
     Inr \<lparr>episode_id = ''ep-test-001'', agent_id = ''test-agent'',
          baseline_episode_id = None, correctness = fl 0.8, cost_delta = Finite 0,
          latency_delta = Finite 0, tool_match = Finite 0, safety = Finite 1,
          weighted_score = fl 0.72\<rparr>"
proof -
  let ?b = "empty_episode\<lparr>ep_other_keys := [''metadata'']\<rparr>"
  have w: "score_weights EvalConfig_default = default_score_weights"
    by (simp add: EvalConfig_default_def)
  have ids: "ep_episode_id sample_episode = Some ''ep-test-001''"
    "ep_agent_id sample_episode = Some ''test-agent''"
    by (simp_all add: sample_episode_def)
  have self: "score Map.empty EvalConfig_default sample_episode None =
     Inr \<lparr>episode_id = ''ep-test-001'', agent_id = ''test-agent'',
          baseline_episode_id = None, correctness = Finite 1, cost_delta = Finite 0,
          latency_delta = Finite 0, tool_match = Finite 1, safety = Finite 1,
          weighted_score = Finite 1\<rparr>"
    by (simp add: score_unfold [where cd = "Finite 0" and ld = "Finite 0"] sample_self_deltas
                  w compute_weighted_default ids get_or_def self_correctness self_tool_match
                  sample_safety py_max_def fgt_def fsub_def float_eval)
  have t: "truthy ?b" "ep_episode_id ?b = None"
    by (simp_all add: truthy_def empty_episode_def)
  have c: "score_correctness sample_episode ?b = fl 0.8"
    by (simp add: score_correctness_def sample_episode_def empty_episode_def get_or_def
                  float_eval)
  have k: "score_cost_delta sample_episode ?b = Inr (Finite 0)"
    by (simp add: score_cost_delta_def empty_episode_def get_or_def feq_def)
  have l: "score_latency_delta sample_episode ?b = Inr (Finite 0)"
    by (simp add: score_latency_delta_def empty_episode_def get_or_def)
  have m: "score_tool_match sample_episode ?b = Finite 0"
    by (simp add: score_tool_match_def sample_episode_def empty_episode_def get_or_def)
  have other: "score Map.empty EvalConfig_default sample_episode (Some ?b) =
     Inr \<lparr>episode_id = ''ep-test-001'', agent_id = ''test-agent'',
          baseline_episode_id = None, correctness = fl 0.8, cost_delta = Finite 0,
          latency_delta = Finite 0, tool_match = Finite 0, safety = Finite 1,
          weighted_score = fl 0.72\<rparr>"
    using k l
    by (simp add: score_unfold [where cd = "Finite 0" and ld = "Finite 0"] t
                  w compute_weighted_default ids get_or_def c m sample_safety
                  py_max_def fgt_def fsub_def float_eval)
  show ?thesis
    using score_empty_baseline [of Map.empty EvalConfig_default sample_episode] self other
    by simp
qed

section \<open>Regression detector\<close>

text \<open>
  Claim C2. For every result, \<open>check\<close> returns the alerts of rules 1 to 7 in rule order:
  none without a score card; otherwise a \<open>cost_delta\<close> alert iff the cost delta exceeds
  its threshold, critical iff it exceeds twice the threshold and warning otherwise, the
  same for \<open>latency_delta\<close>; a critical \<open>correctness\<close> alert iff correctness is below
  0.5; a warning \<open>tool_match\<close> alert iff tool match is below 0.5; a critical \<open>safety\<close>
  alert iff safety is below 0.8; and a critical alert tagged \<open>correctness\<close> iff the
  weighted score is below 0.5. Every alert names the card's episode and has its run id
  still empty.
\<close>

theorem check_rules:
  "map (\<lambda>a. (dimension a, severity a)) (check config result) = spec_check config result
   \<and> (\<forall>a \<in> set (check config result).
         eval_run_id a = '''' \<and>
         Some (alert_episode_id a) = map_option episode_id (score_card result))"
proof (cases "score_card result")
  case None
  then show ?thesis by (simp add: check_def spec_check_def)
next
  case (Some c)
  have 1: "map (\<lambda>a. (dimension a, severity a)) (check config result) = spec_check config result"
    by (simp add: Some check_def spec_check_def spec_rules_def spec_severity_band_def
                  RegressionAlert_init_def fmul_commute [of "Finite 2"])
  have 2: "\<forall>a \<in> set (check config result).
         eval_run_id a = '''' \<and> Some (alert_episode_id a) = map_option episode_id (score_card result)"
    by (auto simp: Some check_def RegressionAlert_init_def split: if_splits)
  show ?thesis using 1 2 by blast
qed

theorem check_rules_witness:
  "map (\<lambda>a. (dimension a, severity a)) (check EvalConfig_default poor_result) =
     [(LATENCY_DELTA, WARNING), (CORRECTNESS, CRITICAL), (TOOL_MATCH, WARNING),
      (SAFETY, CRITICAL), (CORRECTNESS, CRITICAL)]
   \<and> map (\<lambda>a. (dimension a, severity a)) (check EvalConfig_default batch_result) =
     [(COST_DELTA, CRITICAL)]
   \<and> map (\<lambda>a. (dimension a, severity a)) (check EvalConfig_default unscored_result) = []"
  by (simp add: check_rules [THEN conjunct1] spec_check_def spec_rules_def
                spec_severity_band_def EvalConfig_default_def poor_result_def
                poor_card_def batch_result_def batch_card_def unscored_result_def
                fgt_def float_eval)

lemma check_run_id_empty: "a \<in> set (check config r) \<Longrightarrow> eval_run_id a = ''''"
  by (cases "score_card r")
     (auto simp: check_def RegressionAlert_init_def split: if_splits)

lemma check_batch_loop_eq:
  "check_batch_loop config rs rid acc =
     (map (\<lambda>r. r\<lparr>alerts := map (stamp rid) (check config r)\<rparr>) rs,
      acc @ concat (map (\<lambda>r. map (stamp rid) (check config r)) rs))"
proof (induction rs arbitrary: acc)
  case Nil
  show ?case by simp
next
  case (Cons r rs)
  have "(\<lambda>alert. alert\<lparr>eval_run_id := rid\<rparr>) = stamp rid"
    by (simp add: stamp_def fun_eq_iff)
  then show ?case
    by (simp add: Cons.IH Let_def)
qed

text \<open>
  Claim C9. For every list of results and every run id, \<open>check_batch\<close> runs \<open>check\<close> on
  each result in order, stamps every produced alert with the run id, attaches to each
  result the alerts that \<open>check\<close> produces for that result alone, as stamped (setting the
  run id aside, the attached list is exactly the list of \<open>check\<close>), and returns the
  stamped alerts of all results flattened in result order, rule order kept within a
  result. Every returned and every attached alert carries the run id; nothing else of a
  result changes.
\<close>

theorem check_batch_stamped:
  "check_batch config rs rid =
     (map (\<lambda>r. r\<lparr>alerts := map (stamp rid) (check config r)\<rparr>) rs,
      concat (map (\<lambda>r. map (stamp rid) (check config r)) rs))
   \<and> (\<forall>a \<in> set (snd (check_batch config rs rid)). eval_run_id a = rid)
   \<and> (\<forall>r \<in> set (fst (check_batch config rs rid)). \<forall>a \<in> set (alerts r). eval_run_id a = rid)
   \<and> concat (map alerts (fst (check_batch config rs rid))) = snd (check_batch config rs rid)
   \<and> map (\<lambda>r. map (stamp '''') (alerts r)) (fst (check_batch config rs rid))
       = map (check config) rs"
proof -
  have eq: "check_batch config rs rid =
     (map (\<lambda>r. r\<lparr>alerts := map (stamp rid) (check config r)\<rparr>) rs,
      concat (map (\<lambda>r. map (stamp rid) (check config r)) rs))"
    by (simp add: check_batch_def check_batch_loop_eq)
  have c: "concat (map alerts (map (\<lambda>r. r\<lparr>alerts := map (stamp rid) (check config r)\<rparr>) rs))
           = concat (map (\<lambda>r. map (stamp rid) (check config r)) rs)"
    by (simp add: comp_def)
  have u: "map (\<lambda>a. stamp '''' (stamp rid a)) (check config r) = check config r" for r
  proof -
    have "stamp '''' (stamp rid a) = a" if "a \<in> set (check config r)" for a
      using check_run_id_empty [OF that] by (simp add: stamp_def)
    then show ?thesis
      by (simp add: map_idI)
  qed
  have m: "map (\<lambda>r. map (stamp '''') (alerts r))
               (map (\<lambda>r. r\<lparr>alerts := map (stamp rid) (check config r)\<rparr>) rs)
           = map (check config) rs"
    by (simp add: comp_def u)
  have 1: "\<forall>a \<in> set (concat (map (\<lambda>r. map (stamp rid) (check config r)) rs)). eval_run_id a = rid"
    by (auto simp: stamp_def)
  have 2: "\<forall>r \<in> set (map (\<lambda>r. r\<lparr>alerts := map (stamp rid) (check config r)\<rparr>) rs).
             \<forall>a \<in> set (alerts r). eval_run_id a = rid"
    by (auto simp: stamp_def)
  show ?thesis
    unfolding eq fst_conv snd_conv using c m 1 2 by blast
qed

theorem check_batch_stamped_witness:
  "map (\<lambda>a. (eval_run_id a, alert_episode_id a, dimension a, severity a))
       (snd (check_batch EvalConfig_default [batch_result, unscored_result, poor_result]
                         ''run-123'')) =
     [(''run-123'', ''ep-1'', COST_DELTA, CRITICAL),
      (''run-123'', ''ep-3'', LATENCY_DELTA, WARNING),
      (''run-123'', ''ep-3'', CORRECTNESS, CRITICAL),
      (''run-123'', ''ep-3'', TOOL_MATCH, WARNING),
      (''run-123'', ''ep-3'', SAFETY, CRITICAL),
      (''run-123'', ''ep-3'', CORRECTNESS, CRITICAL)]
   \<and> map (\<lambda>r. length (alerts r))
       (fst (check_batch EvalConfig_default [batch_result, unscored_result, poor_result]
                         ''run-123'')) = [1, 0, 5]
   \<and> map (\<lambda>r. map (stamp '''') (alerts r))
       (fst (check_batch EvalConfig_default [batch_result, unscored_result, poor_result]
                         ''run-123''))
       = [check EvalConfig_default batch_result, check EvalConfig_default unscored_result,
          check EvalConfig_default poor_result]"
proof -
  have 1: "map (\<lambda>a. (eval_run_id a, alert_episode_id a, dimension a, severity a))
       (snd (check_batch EvalConfig_default [batch_result, unscored_result, poor_result]
                         ''run-123'')) =
     [(''run-123'', ''ep-1'', COST_DELTA, CRITICAL),
      (''run-123'', ''ep-3'', LATENCY_DELTA, WARNING),
      (''run-123'', ''ep-3'', CORRECTNESS, CRITICAL),
      (''run-123'', ''ep-3'', TOOL_MATCH, WARNING),
      (''run-123'', ''ep-3'', SAFETY, CRITICAL),
      (''run-123'', ''ep-3'', CORRECTNESS, CRITICAL)]"
   and 2: "map (\<lambda>r. length (alerts r))
       (fst (check_batch EvalConfig_default [batch_result, unscored_result, poor_result]
                         ''run-123'')) = [1, 0, 5]"
    by (simp_all add: check_batch_stamped [THEN conjunct1] stamp_def check_def
                EvalConfig_default_def RegressionAlert_init_def poor_result_def
                poor_card_def batch_result_def batch_card_def unscored_result_def
                fgt_def float_eval)
  have 3: "map (\<lambda>r. map (stamp '''') (alerts r))
       (fst (check_batch EvalConfig_default [batch_result, unscored_result, poor_result]
                         ''run-123''))
       = [check EvalConfig_default batch_result, check EvalConfig_default unscored_result,
          check EvalConfig_default poor_result]"
    using check_batch_stamped [THEN conjunct2, THEN conjunct2, THEN conjunct2, THEN conjunct2,
            of EvalConfig_default "[batch_result, unscored_result, poor_result]" "''run-123''"]
    by simp
  show ?thesis
    using 1 2 3 by blast
qed

section \<open>Eval run aggregator\<close>

lemma foldl_run_alerts:
  "foldl (\<lambda>self r. self\<lparr>run_alerts := run_alerts self @ alerts r\<rparr>) run rs =
     run\<lparr>run_alerts := run_alerts run @ concat (map alerts rs)\<rparr>"
  by (induction rs arbitrary: run) simp_all

text \<open>What \<open>compute_summary\<close> computes: every summary field from the results, except that
  the average is left as it was when no result has a score card.\<close>

lemma compute_summary_eq:
  "compute_summary run =
     run\<lparr>total_episodes := length (results run),
         passed := length (filter (\<lambda>r. \<exists>c. score_card r = Some c \<and> fge (weighted_score c) (fl 0.7))
                                  (results run)),
         failed := length (filter (\<lambda>r. \<exists>c. score_card r = Some c \<and> flt (weighted_score c) (fl 0.7))
                                  (results run)),
         avg_weighted_score :=
           (if List.map_filter score_card (results run) \<noteq> []
            then py_round
                   (fdiv (py_sum (map weighted_score (List.map_filter score_card (results run))))
                         (fl (real (length (List.map_filter score_card (results run)))))) 4
            else avg_weighted_score run),
         run_alerts := concat (map alerts (results run))\<rparr>"
proof -
  have p: "filter (\<lambda>r. P (result_weighted_score r)) (filter (\<lambda>r. score_card r \<noteq> None) rs)
           = filter (\<lambda>r. \<exists>c. score_card r = Some c \<and> P (weighted_score c)) rs" for P rs
    by (induction rs) (auto simp: result_weighted_score_def)
  have m: "map result_weighted_score (filter (\<lambda>r. score_card r \<noteq> None) rs)
           = map weighted_score (List.map_filter score_card rs)" for rs
    by (induction rs) (auto simp: result_weighted_score_def List.map_filter_simps)
  have e: "filter (\<lambda>r. score_card r \<noteq> None) rs \<noteq> [] \<longleftrightarrow> List.map_filter score_card rs \<noteq> []" for rs
    by (induction rs) (auto simp: List.map_filter_simps)
  have l: "length (filter (\<lambda>r. score_card r \<noteq> None) rs) = length (List.map_filter score_card rs)" for rs
    by (induction rs) (auto simp: List.map_filter_simps)
  show ?thesis
    unfolding compute_summary_def Let_def foldl_run_alerts
      p [where P = "\<lambda>w. fge w (fl 0.7)"] p [where P = "\<lambda>w. flt w (fl 0.7)"] m e l
    by simp
qed

text \<open>The specification's example, weighted scores 0.9 and 0.3, and a run whose exact
  average is 0.00015, which the float computation puts at 0.0001.\<close>

lemma compute_summary_examples:
  "total_episodes (compute_summary (fresh_run [scored_result (fl 0.9), scored_result (fl 0.3)])) = 2"
  "passed (compute_summary (fresh_run [scored_result (fl 0.9), scored_result (fl 0.3)])) = 1"
  "failed (compute_summary (fresh_run [scored_result (fl 0.9), scored_result (fl 0.3)])) = 1"
  "avg_weighted_score (compute_summary (fresh_run [scored_result (fl 0.9), scored_result (fl 0.3)]))
     = fl 0.6"
  "avg_weighted_score (compute_summary (fresh_run [scored_result (Finite 0), scored_result (fl 0.0003)]))
     = fl 0.0001"
  by (simp_all add: compute_summary_eq fresh_run_def scored_result_def List.map_filter_simps
                    py_sum_def fge_def feq_def float_eval)

text \<open>
  Claim C3 at a run whose only result has no score card and whose stored average is
  \<open>0.5\<close>: the claim gives an average of \<open>0.0\<close>, \<open>compute_summary\<close> leaves \<open>0.5\<close>, while
  it does recompute the counters and the alert list.
\<close>

theorem compute_summary_keeps_stale_average:
  "List.map_filter score_card (results stale_run) = []
   \<and> avg_weighted_score (compute_summary stale_run) = Finite 0.5
   \<and> total_episodes (compute_summary stale_run) = 1
   \<and> passed (compute_summary stale_run) = 0
   \<and> failed (compute_summary stale_run) = 0
   \<and> run_alerts (compute_summary stale_run) = []"
  by (simp add: compute_summary_def stale_run_def unscored_result_def
                List.map_filter_simps Let_def)

section \<open>Score card: the weighted score\<close>

lemma getattr_dimension:
  assumes "d \<in> set dimension_names"
  shows "getattr_card inherited c d =
           PyNumber (if d = ''correctness'' then correctness c
                     else if d = ''cost_delta'' then cost_delta c
                     else if d = ''latency_delta'' then latency_delta c
                     else if d = ''tool_match'' then tool_match c
                     else safety c)"
  using assms by (auto simp: dimension_names_def getattr_card_def)

text \<open>On dimension names the loop never raises and adds weight times value, entry by
  entry.\<close>

lemma compute_weighted_loop_dimensions:
  "set (map fst ws) \<subseteq> set dimension_names \<Longrightarrow>
   compute_weighted_loop inherited c ws tot =
     Inr (foldl (\<lambda>acc (d, w). fadd acc (fmul w (dimension_value c d))) tot ws)"
proof (induction ws arbitrary: tot)
  case Nil
  show ?case by simp
next
  case (Cons p ws)
  obtain d w where p: "p = (d, w)" by (cases p)
  from Cons.prems have d: "d \<in> set dimension_names"
    and rest: "set (map fst ws) \<subseteq> set dimension_names"
    by (simp_all add: p)
  have v: "(if d = ''cost_delta'' \<or> d = ''latency_delta''
            then py_max (Finite 0) (fsub (Finite 1) (fdiv (fabs
                   (if d = ''correctness'' then correctness c
                    else if d = ''cost_delta'' then cost_delta c
                    else if d = ''latency_delta'' then latency_delta c
                    else if d = ''tool_match'' then tool_match c
                    else safety c)) (Finite 100)))
            else (if d = ''correctness'' then correctness c
                    else if d = ''cost_delta'' then cost_delta c
                    else if d = ''latency_delta'' then latency_delta c
                    else if d = ''tool_match'' then tool_match c
                    else safety c)) = dimension_value c d"
    using d by (auto simp: dimension_names_def dimension_value_def delta_goodness_def)
  show ?case
    by (simp add: p getattr_dimension [OF d] Let_def v Cons.IH [OF rest]
                  fmul_commute [of _ w])
qed

text \<open>A name that is an inherited attribute without a numeric value makes the loop
  raise.\<close>

lemma compute_weighted_inherited_attribute:
  "compute_weighted one_inherited c [(''model_dump'', w)] = Inl TypeError"
  by (simp add: compute_weighted_def getattr_card_def one_inherited_def)

subsection \<open>The transform of the two deltas\<close>

lemma fl_nonpos: "x \<le> 0 \<Longrightarrow> \<not> flt (Finite 0) (fl x)"
  using round_nearest_nonpos [of x] by (simp add: fl_def Let_def)

lemma fl_ge_one:
  assumes "1 \<le> x"
  shows "fl x = PosInf \<or> (\<exists>r. fl x = Finite r \<and> 1 \<le> r)"
proof -
  have "round_nearest 1 \<le> round_nearest x"
    using assms by (intro round_nearest_mono) simp_all
  then have "1 \<le> round_nearest x" by (simp add: round_nearest_1)
  then show ?thesis
    by (auto simp: fl_def Let_def)
qed

lemma one_minus_clamped:
  assumes "v = PosInf \<or> (\<exists>r. v = Finite r \<and> 1 \<le> r)"
  shows "py_max (Finite 0) (fsub (Finite 1) v) = Finite 0"
  using assms
proof
  assume "v = PosInf"
  then show ?thesis by (simp add: py_max_def fgt_def fsub_def)
next
  assume "\<exists>r. v = Finite r \<and> 1 \<le> r"
  then obtain r where r: "v = Finite r" "1 \<le> r" by blast
  have "\<not> flt (Finite 0) (fl (1 + - r))"
    using r(2) by (intro fl_nonpos) simp
  then show ?thesis
    by (simp add: r(1) py_max_def fgt_def fsub_def)
qed

lemma delta_goodness_clamp:
  assumes "fge (fabs delta) (Finite 100)"
  shows "delta_goodness delta = Finite 0"
proof (cases delta)
  case (Finite d)
  with assms have "100 \<le> \<bar>d\<bar>"
    by (auto simp: fge_def feq_def)
  then have "1 \<le> \<bar>d\<bar> / 100" by simp
  then show ?thesis
    unfolding delta_goodness_def Finite fabs.simps fdiv.simps
    by (intro one_minus_clamped fl_ge_one)
next
  case PosInf
  then show ?thesis
    by (simp add: delta_goodness_def signed_inf_def py_max_def fgt_def fsub_def)
next
  case NegInf
  then show ?thesis
    by (simp add: delta_goodness_def signed_inf_def py_max_def fgt_def fsub_def)
next
  case NaN
  with assms show ?thesis by (simp add: fge_def feq_def)
qed

lemma delta_goodness_nonneg: "\<not> flt (delta_goodness delta) (Finite 0)"
  using flt_irrefl_zero by (auto simp: delta_goodness_def py_max_def fgt_def)

lemma delta_goodness_values:
  "delta_goodness (Finite 0) = Finite 1"
  "delta_goodness (Finite 100) = Finite 0"
  "delta_goodness (Finite (- 100)) = Finite 0"
  by (simp_all add: delta_goodness_def py_max_def fgt_def fsub_def float_eval)

text \<open>
  Claim C4. For every score card and every weight map over dimension names,
  \<open>compute_weighted\<close> sets \<open>weighted_score\<close> to the sum, over the dimensions the map
  has and in the map's order, of weight times value, rounded to 4 decimals, all in float
  arithmetic. The value of \<open>cost_delta\<close> and \<open>latency_delta\<close> is first turned into
  \<^verbatim>\<open>max(0, 1 - abs(delta) / 100)\<close>: 1.0 for a delta of 0, 0.0 for a delta of 100 or
  -100, 0.0 beyond, never negative. The other three values are taken as they are. No
  other field of the card changes.
\<close>

theorem compute_weighted_formula:
  assumes "set (map fst weights) \<subseteq> set dimension_names"
  shows "compute_weighted inherited self weights =
           Inr (self\<lparr>weighted_score := py_round (spec_weighted_sum self weights) 4\<rparr>)
         \<and> delta_goodness (Finite 0) = Finite 1
         \<and> delta_goodness (Finite 100) = Finite 0
         \<and> delta_goodness (Finite (- 100)) = Finite 0
         \<and> (\<forall>delta. fge (fabs delta) (Finite 100) \<longrightarrow> delta_goodness delta = Finite 0)
         \<and> (\<forall>delta. \<not> flt (delta_goodness delta) (Finite 0))"
proof -
  have "compute_weighted inherited self weights =
           Inr (self\<lparr>weighted_score := py_round (spec_weighted_sum self weights) 4\<rparr>)"
    by (simp add: compute_weighted_def compute_weighted_loop_dimensions [OF assms]
                  spec_weighted_sum_def)
  then show ?thesis
    using delta_goodness_values delta_goodness_clamp delta_goodness_nonneg by blast
qed

text \<open>The default weights on a card whose exact weighted sum is 0.69995, which the float
  computation puts at 0.6999; on the card of five alerts; and a map of two dimensions, on
  a cost delta of 50 and on one of -250.\<close>

theorem compute_weighted_formula_witness:
  "set (map fst default_score_weights) \<subseteq> set dimension_names
   \<and> compute_weighted one_inherited halfway_card default_score_weights =
       Inr (halfway_card\<lparr>weighted_score := fl 0.6999\<rparr>)
   \<and> compute_weighted one_inherited poor_card default_score_weights =
       Inr (poor_card\<lparr>weighted_score := fl 0.425\<rparr>)
   \<and> compute_weighted one_inherited batch_card [(''cost_delta'', Finite 1), (''safety'', fl 0.5)] =
       Inr (batch_card\<lparr>weighted_score := Finite 1\<rparr>)
   \<and> compute_weighted one_inherited (batch_card\<lparr>cost_delta := Finite (- 250)\<rparr>)
        [(''cost_delta'', Finite 1), (''safety'', fl 0.5)] =
       Inr (batch_card\<lparr>cost_delta := Finite (- 250), weighted_score := fl 0.5\<rparr>)"
proof -
  have a: "set (map fst default_score_weights) \<subseteq> set dimension_names"
    by (simp add: default_score_weights_def dimension_names_def)
  have b: "set (map fst [(''cost_delta'', Finite 1), (''safety'', fl 0.5)])
             \<subseteq> set dimension_names"
    by (simp add: dimension_names_def)
  have 1: "py_round (spec_weighted_sum halfway_card default_score_weights) 4 = fl 0.6999"
    by (simp add: spec_weighted_sum_def default_score_weights_def dimension_value_def
                  delta_goodness_def halfway_card_def py_max_def fgt_def fsub_def float_eval)
  have 2: "py_round (spec_weighted_sum poor_card default_score_weights) 4 = fl 0.425"
    by (simp add: spec_weighted_sum_def default_score_weights_def dimension_value_def
                  delta_goodness_def poor_card_def py_max_def fgt_def fsub_def float_eval)
  have 3: "py_round (spec_weighted_sum batch_card
                       [(''cost_delta'', Finite 1), (''safety'', fl 0.5)]) 4 = Finite 1"
    by (simp add: spec_weighted_sum_def dimension_value_def
                  delta_goodness_def batch_card_def py_max_def fgt_def fsub_def float_eval)
  have 4: "py_round (spec_weighted_sum (batch_card\<lparr>cost_delta := Finite (- 250)\<rparr>)
                       [(''cost_delta'', Finite 1), (''safety'', fl 0.5)]) 4 = fl 0.5"
    by (simp add: spec_weighted_sum_def dimension_value_def
                  delta_goodness_def batch_card_def py_max_def fgt_def fsub_def float_eval)
  have c1: "compute_weighted one_inherited halfway_card default_score_weights =
       Inr (halfway_card\<lparr>weighted_score := fl 0.6999\<rparr>)"
    by (simp only: compute_weighted_formula [OF a, THEN conjunct1] 1)
  have c2: "compute_weighted one_inherited poor_card default_score_weights =
       Inr (poor_card\<lparr>weighted_score := fl 0.425\<rparr>)"
    by (simp only: compute_weighted_formula [OF a, THEN conjunct1] 2)
  have c3: "compute_weighted one_inherited batch_card
              [(''cost_delta'', Finite 1), (''safety'', fl 0.5)] =
       Inr (batch_card\<lparr>weighted_score := Finite 1\<rparr>)"
    by (simp only: compute_weighted_formula [OF b, THEN conjunct1] 3)
  have c4: "compute_weighted one_inherited (batch_card\<lparr>cost_delta := Finite (- 250)\<rparr>)
        [(''cost_delta'', Finite 1), (''safety'', fl 0.5)] =
       Inr (batch_card\<lparr>cost_delta := Finite (- 250), weighted_score := fl 0.5\<rparr>)"
    by (simp only: compute_weighted_formula [OF b, THEN conjunct1] 4)
  show ?thesis
    using a c1 c2 c3 c4 by blast
qed

section \<open>Scoring engine: tool match\<close>

text \<open>The index loop of the source counts the equal pairs of the zipped lists.\<close>

lemma matches_zip:
  "length (filter (\<lambda>i. xs ! i = ys ! i) [0..<min (length xs) (length ys)]) =
   length (filter (\<lambda>(x, y). x = y) (zip xs ys))"
proof -
  have z: "zip xs ys = map (\<lambda>i. (xs ! i, ys ! i)) [0..<min (length xs) (length ys)]"
    by (rule nth_equalityI) simp_all
  have "filter (\<lambda>(x, y). x = y) (zip xs ys) =
        map (\<lambda>i. (xs ! i, ys ! i))
            (filter (\<lambda>i. xs ! i = ys ! i) [0..<min (length xs) (length ys)])"
    unfolding z filter_map by (simp add: comp_def)
  then show ?thesis by simp
qed

lemma tool_match_spec:
  "score_tool_match c b =
     spec_tool_match (get_or (ep_tools_used c) []) (get_or (ep_tools_used b) [])"
proof -
  let ?c = "get_or (ep_tools_used c) []" and ?b = "get_or (ep_tools_used b) []"
  show ?thesis
  proof (cases "?c = [] \<or> ?b = []")
    case True
    then show ?thesis
      by (auto simp: score_tool_match_def spec_tool_match_def Let_def)
  next
    case False
    then have u: "0 < card (set ?c \<union> set ?b)" and m: "0 < min (length ?c) (length ?b)"
      by (simp_all add: card_gt_0_iff)
    show ?thesis
      using False u m
      by (simp add: score_tool_match_def spec_tool_match_def Let_def jaccard_def
                    position_ratio_def matches_zip)
  qed
qed

text \<open>
  Claim C8. For every current and baseline episode, tool match is 1.0 when both tool
  lists are empty, 0.0 when exactly one is, and otherwise the Jaccard overlap of the two
  name sets times 0.6 plus the ratio of equal positions among the first
  \<open>min\<close> positions times 0.4, rounded to 4 decimals, in float arithmetic. The tools
  a, b against the baseline b, a give the float 0.6.
\<close>

theorem tool_match_formula:
  "score_tool_match current baseline =
     spec_tool_match (get_or (ep_tools_used current) []) (get_or (ep_tools_used baseline) [])
   \<and> score_tool_match (empty_episode\<lparr>ep_tools_used := Some [''a'', ''b'']\<rparr>)
                       (empty_episode\<lparr>ep_tools_used := Some [''b'', ''a'']\<rparr>) = fl 0.6"
proof -
  have s: "card (set [''a'', ''b''] \<inter> set [''b'', ''a'']) = 2"
          "card (set [''a'', ''b''] \<union> set [''b'', ''a'']) = 2"
    by (simp_all add: card_insert_if)
  have j: "jaccard (set [''a'', ''b'']) (set [''b'', ''a'']) = Finite 1"
    unfolding jaccard_def s by (simp add: len_div_def fl_1)
  have p: "position_ratio [''a'', ''b''] [''b'', ''a''] = Finite 0"
    by (simp add: position_ratio_def len_div_def fl_0)
  have r: "py_round (fadd (fmul (Finite 1) (fl 0.6)) (fmul (Finite 0) (fl 0.4))) 4 = fl 0.6"
    by (simp add: float_eval)
  have "spec_tool_match [''a'', ''b''] [''b'', ''a''] = fl 0.6"
    unfolding spec_tool_match_def j p using r by simp
  then show ?thesis
    by (simp add: tool_match_spec get_or_def empty_episode_def)
qed

text \<open>The sample episode against a baseline of two tools, against an episode without
  tools, two episodes without tools, and the pair whose exact value is 0.01875, which
  the float computation puts at 0.0187.\<close>

theorem tool_match_formula_witness:
  "score_tool_match sample_episode other_baseline = fl 0.3
   \<and> score_tool_match sample_episode empty_episode = Finite 0
   \<and> score_tool_match empty_episode empty_episode = Finite 1
   \<and> score_tool_match halfway_current halfway_baseline = fl 0.0187"
proof -
  have s: "card (set [''calculator''] \<inter> set [''web_search'', ''calculator'']) = 1"
          "card (set [''calculator''] \<union> set [''web_search'', ''calculator'']) = 2"
    by (simp_all add: card_insert_if)
  have j: "jaccard (set [''calculator'']) (set [''web_search'', ''calculator'']) = fl (1 / 2)"
    unfolding jaccard_def s by (simp add: len_div_def)
  have p: "position_ratio [''calculator''] [''web_search'', ''calculator''] = Finite 0"
    by (simp add: position_ratio_def len_div_def fl_0)
  have r: "py_round (fadd (fmul (fl (1 / 2)) (fl 0.6)) (fmul (Finite 0) (fl 0.4))) 4 = fl 0.3"
    by (simp add: float_eval)
  have 1: "spec_tool_match [''calculator''] [''web_search'', ''calculator''] = fl 0.3"
    unfolding spec_tool_match_def j p using r by simp
  have hs: "card (set thirty_two_tools \<inter> set [''t31'']) = 1"
           "card (set thirty_two_tools \<union> set [''t31'']) = 32"
    by (simp_all add: thirty_two_tools_def card_insert_if)
  have hj: "jaccard (set thirty_two_tools) (set [''t31'']) = fl (1 / 32)"
    unfolding jaccard_def hs by (simp add: len_div_def)
  have hp: "position_ratio thirty_two_tools [''t31''] = Finite 0"
    by (simp add: position_ratio_def len_div_def fl_0 thirty_two_tools_def)
  have hr: "py_round (fadd (fmul (fl (1 / 32)) (fl 0.6)) (fmul (Finite 0) (fl 0.4))) 4
              = fl 0.0187"
    by (simp add: float_eval)
  have hn: "thirty_two_tools \<noteq> []"
    by (simp add: thirty_two_tools_def)
  have 2: "spec_tool_match thirty_two_tools [''t31''] = fl 0.0187"
    unfolding spec_tool_match_def hj hp using hr hn by simp
  show ?thesis
    using 1 2
    by (simp add: tool_match_formula [THEN conjunct1] get_or_def sample_episode_def
                  other_baseline_def empty_episode_def halfway_current_def
                  halfway_baseline_def)
       (simp add: spec_tool_match_def)
qed

section \<open>Scoring engine: safety\<close>

text \<open>
  Claim C5, as stated: safety is 0.0 only if every step is an error step. It is not so:
  the ratio is rounded to 4 decimals, and an episode of 20001 steps of which one is not
  an error step scores 0.0 as well.
\<close>

theorem safety_zero_counterexample:
  "score_safety nearly_all_errors = Finite 0
   \<and> llm_step \<in> set (get_or (ep_steps nearly_all_errors) [])
   \<and> step_type llm_step \<noteq> Some ''error''"
proof -
  have f: "filter (\<lambda>s. step_type s = Some ''error'') (replicate 20000 error_step @ [llm_step])
           = replicate 20000 error_step"
    by (simp add: error_step_def llm_step_def)
  have st: "get_or (ep_steps nearly_all_errors) [] = replicate 20000 error_step @ [llm_step]"
    by (simp add: nearly_all_errors_def get_or_def)
  have "score_safety nearly_all_errors =
          py_round (fsub (Finite 1) (len_div (length (replicate 20000 error_step))
                        (length (replicate 20000 error_step @ [llm_step])))) 4"
    unfolding score_safety_def Let_def st f by simp
  then have "score_safety nearly_all_errors =
               py_round (fsub (Finite 1) (fl (20000 / 20001))) 4"
    by (simp add: len_div_def)
  moreover have "py_round (fsub (Finite 1) (fl (20000 / 20001))) 4 = Finite 0"
    by (simp add: fsub_def float_eval)
  ultimately have "score_safety nearly_all_errors = Finite 0"
    by simp
  then show ?thesis
    by (simp add: nearly_all_errors_def get_or_def llm_step_def)
qed

lemma all_errors_iff:
  "length (filter P xs) = length xs \<longleftrightarrow> (\<forall>x \<in> set xs. P x)"
  by (metis filter_id_conv length_filter_less less_irrefl)

lemma safety_spec:
  "score_safety ep =
     spec_safety (length (filter (\<lambda>s. step_type s = Some ''error'') (get_or (ep_steps ep) [])))
                 (length (get_or (ep_steps ep) []))"
  by (simp add: score_safety_def spec_safety_def Let_def)

lemma spec_safety_all: "0 < n \<Longrightarrow> spec_safety n n = Finite 0"
proof -
  have "py_round (Finite 0) 4 = Finite 0"
    by (simp add: float_eval)
  then show ?thesis if "0 < n"
    using that by (simp add: spec_safety_def len_div_def fl_1 fsub_def fl_0)
qed

lemma spec_safety_none: "spec_safety 0 n = Finite 1"
proof -
  have "py_round (Finite 1) 4 = Finite 1"
    by (simp add: float_eval)
  then show ?thesis
    by (simp add: spec_safety_def len_div_def fl_1 fsub_def fl_0)
qed

text \<open>Below 20000 steps, one step that is not an error step keeps the score above
  zero: the float operations are monotone, and the score of 19998 error steps among 19999
  is not zero.\<close>

lemma spec_safety_positive:
  assumes "e < n" "n < 20000"
  shows "spec_safety e n \<noteq> Finite 0"
proof -
  have n: "0 < n" using assms by simp
  have "e * 19999 \<le> 19998 * n" using assms by simp
  then have "real (e * 19999) \<le> real (19998 * n)" by (simp only: of_nat_le_iff)
  then have ratio: "real e / real n \<le> 19998 / 19999"
    using n by (simp add: field_simps)
  have ratio1: "real e / real n \<le> 1" using assms by simp
  have ratio0: "0 \<le> real e / real n" by simp
  define r where "r = round_nearest (real e / real n)"
  define q :: real where "q = round_nearest (19998 / 19999)"
  have fr: "fl (real e / real n) = Finite r" and r0: "0 \<le> r" and r1: "r \<le> 1"
    using fl_unit [OF ratio0 ratio1] by (simp_all add: r_def)
  have rq: "r \<le> q"
    unfolding r_def q_def by (rule round_nearest_mono [OF ratio0 ratio])
  have q1: "q \<le> 1"
    using fl_unit [of "19998 / 19999"] by (simp add: q_def)
  define y where "y = round_nearest (1 - r)"
  have fy: "fl (1 - r) = Finite y" and y1: "y \<le> 1"
    using fl_unit [of "1 - r"] r0 r1 by (simp_all add: y_def)
  have "round_nearest (1 - q) \<le> round_nearest (1 - r)"
    using q1 rq by (intro round_nearest_mono) simp_all
  moreover have "1 / 2 < round_nearest (1 - round_nearest (19998 / 19999)) * 10 ^ 4"
    by (simp add: float_eval)
  ultimately have half: "1 / 2 < y * 10 ^ 4"
    unfolding y_def q_def by simp
  define k where "k = round_half_even (y * 10 ^ 4)"
  have k: "1 \<le> k"
    unfolding k_def by (rule round_half_even_above_half [OF half])
  then have "(1::real) / 10 ^ 4 \<le> of_int k / 10 ^ 4"
    by (simp add: divide_right_mono)
  then have "round_nearest (1 / 10 ^ 4) \<le> round_nearest (of_int k / 10 ^ 4)"
    by (intro round_nearest_mono) simp_all
  moreover have "0 < round_nearest (1 / 10 ^ 4)"
    by (simp add: float_eval)
  ultimately have pos: "0 < round_nearest (of_int k / 10 ^ 4)"
    by simp
  have "fl (of_int k / 10 ^ 4) \<noteq> Finite 0"
    using pos by (simp add: fl_def Let_def)
  moreover have "spec_safety e n = fl (of_int k / 10 ^ 4)"
    using n by (simp add: spec_safety_def len_div_def fr fsub_def fy k_def)
  ultimately show ?thesis by simp
qed

text \<open>
  Claim C5, amended. For every episode, safety is 1.0 when the episode has no step and
  otherwise 1 minus the share of error steps, rounded to 4 decimals, in float arithmetic.
  It is 0.0 whenever the episode has a step and every step is an error step; for an
  episode of fewer than 20000 steps it is 0.0 only then. It is 1.0 whenever the episode
  has no step or no error step.
\<close>

theorem safety_formula:
  "score_safety ep =
     spec_safety (length (filter (\<lambda>s. step_type s = Some ''error'') (get_or (ep_steps ep) [])))
                 (length (get_or (ep_steps ep) []))
   \<and> (get_or (ep_steps ep) [] \<noteq> [] \<and>
        (\<forall>s \<in> set (get_or (ep_steps ep) []). step_type s = Some ''error'')
        \<longrightarrow> score_safety ep = Finite 0)
   \<and> (length (get_or (ep_steps ep) []) < 20000 \<longrightarrow>
        (score_safety ep = Finite 0 \<longleftrightarrow>
           get_or (ep_steps ep) [] \<noteq> [] \<and>
           (\<forall>s \<in> set (get_or (ep_steps ep) []). step_type s = Some ''error'')))
   \<and> (get_or (ep_steps ep) [] = [] \<or>
        filter (\<lambda>s. step_type s = Some ''error'') (get_or (ep_steps ep) []) = []
        \<longrightarrow> score_safety ep = Finite 1)"
proof -
  define steps where "steps = get_or (ep_steps ep) []"
  define e where "e = length (filter (\<lambda>s. step_type s = Some ''error'') steps)"
  have en: "e \<le> length steps" by (simp add: e_def)
  have all: "e = length steps \<longleftrightarrow> (\<forall>s \<in> set steps. step_type s = Some ''error'')"
    unfolding e_def by (rule all_errors_iff)
  have 1: "score_safety ep = spec_safety e (length steps)"
    unfolding steps_def e_def by (rule safety_spec)
  have 2: "steps \<noteq> [] \<and> (\<forall>s \<in> set steps. step_type s = Some ''error'') \<longrightarrow>
             score_safety ep = Finite 0"
    using all by (auto simp: 1 spec_safety_all)
  have 3: "length steps < 20000 \<longrightarrow>
        (score_safety ep = Finite 0 \<longleftrightarrow>
           steps \<noteq> [] \<and> (\<forall>s \<in> set steps. step_type s = Some ''error''))"
  proof
    assume small: "length steps < 20000"
    show "score_safety ep = Finite 0 \<longleftrightarrow>
            steps \<noteq> [] \<and> (\<forall>s \<in> set steps. step_type s = Some ''error'')"
    proof
      assume z: "score_safety ep = Finite 0"
      have ne: "steps \<noteq> []"
        using z by (auto simp: 1 spec_safety_def)
      have "\<not> e < length steps"
        using spec_safety_positive [OF _ small, of e] z by (auto simp: 1)
      then have "e = length steps" using en by simp
      then show "steps \<noteq> [] \<and> (\<forall>s \<in> set steps. step_type s = Some ''error'')"
        using ne all by simp
    next
      assume "steps \<noteq> [] \<and> (\<forall>s \<in> set steps. step_type s = Some ''error'')"
      then show "score_safety ep = Finite 0" using 2 by blast
    qed
  qed
  have 4: "steps = [] \<or> filter (\<lambda>s. step_type s = Some ''error'') steps = [] \<longrightarrow>
             score_safety ep = Finite 1"
  proof
    assume "steps = [] \<or> filter (\<lambda>s. step_type s = Some ''error'') steps = []"
    then show "score_safety ep = Finite 1"
    proof
      assume "steps = []"
      then show ?thesis by (simp add: 1 spec_safety_def)
    next
      assume "filter (\<lambda>s. step_type s = Some ''error'') steps = []"
      then have "e = 0" by (simp add: e_def)
      then show ?thesis by (simp add: 1 spec_safety_none)
    qed
  qed
  show ?thesis
    using 1 2 3 4 unfolding steps_def e_def by blast
qed

text \<open>The test scenario of two error steps, the baseline with two error steps out of three,
  the sample episode, which has none, the empty episode, and 7 error steps among 160,
  whose exact score 0.95625 the float computation puts at 0.9563.\<close>

theorem safety_formula_witness:
  "score_safety (sample_episode\<lparr>ep_steps := Some [error_step, error_step]\<rparr>) = Finite 0
   \<and> length (get_or (ep_steps other_baseline) []) < 20000
   \<and> score_safety other_baseline = fl 0.3333
   \<and> score_safety sample_episode = Finite 1
   \<and> score_safety empty_episode = Finite 1
   \<and> score_safety seven_of_160 = fl 0.9563"
proof -
  let ?two = "sample_episode\<lparr>ep_steps := Some [error_step, error_step]\<rparr>"
  have a: "get_or (ep_steps ?two) [] \<noteq> [] \<and>
           (\<forall>s \<in> set (get_or (ep_steps ?two) []). step_type s = Some ''error'')"
    by (simp add: get_or_def error_step_def)
  have b: "get_or (ep_steps sample_episode) [] = [] \<or>
           filter (\<lambda>s. step_type s = Some ''error'') (get_or (ep_steps sample_episode) []) = []"
    by (simp add: get_or_def sample_episode_def)
  have c: "get_or (ep_steps empty_episode) [] = [] \<or>
           filter (\<lambda>s. step_type s = Some ''error'') (get_or (ep_steps empty_episode) []) = []"
    by (simp add: get_or_def empty_episode_def)
  have 1: "score_safety ?two = Finite 0"
    using safety_formula [of ?two] a by blast
  have st: "get_or (ep_steps other_baseline) [] =
              [\<lparr>step_type = Some ''llm_call''\<rparr>, \<lparr>step_type = Some ''error''\<rparr>,
               \<lparr>step_type = Some ''error''\<rparr>]"
    by (simp add: get_or_def other_baseline_def)
  have l: "length (get_or (ep_steps other_baseline) []) < 20000"
    unfolding st by simp
  have "score_safety other_baseline = spec_safety 2 3"
    unfolding safety_formula [of other_baseline, THEN conjunct1] st
    by (simp add: numeral_2_eq_2 numeral_3_eq_3)
  moreover have "spec_safety 2 3 = fl 0.3333"
    by (simp add: spec_safety_def len_div_def fsub_def float_eval)
  ultimately have 2: "score_safety other_baseline = fl 0.3333"
    by simp
  have 3: "score_safety sample_episode = Finite 1"
    using safety_formula [of sample_episode] b by blast
  have 4: "score_safety empty_episode = Finite 1"
    using safety_formula [of empty_episode] c by blast
  have s7: "get_or (ep_steps seven_of_160) [] = replicate 7 error_step @ replicate 153 llm_step"
    by (simp add: get_or_def seven_of_160_def)
  have f7: "filter (\<lambda>s. step_type s = Some ''error'')
              (replicate 7 error_step @ replicate 153 llm_step) = replicate 7 error_step"
    by (simp add: error_step_def llm_step_def)
  have "score_safety seven_of_160 = spec_safety 7 160"
    unfolding safety_formula [of seven_of_160, THEN conjunct1] s7 f7 by simp
  moreover have "spec_safety 7 160 = fl 0.9563"
    by (simp add: spec_safety_def len_div_def fsub_def float_eval)
  ultimately have 5: "score_safety seven_of_160 = fl 0.9563"
    by simp
  show ?thesis
    using 1 l 2 3 4 5 by blast
qed

section \<open>Scoring engine: identifiers and failures\<close>










end
